theory Spec2Isabelle
  imports Main "HOL-Library.Word"
begin

section \<open>Values, errors and the evaluation stack\<close>

text \<open>
  The TEAL runtime of algorand-builder works on a stack of values that are either a
  JavaScript \<open>bigint\<close> (a uint64 of the language) or a \<open>Uint8Array\<close>
  (\<open>StackElem = bigint | Uint8Array\<close> in \<open>types.ts\<close>). A \<open>bigint\<close> is unbounded, so it
  is an \<open>int\<close> here and every range check of the source is a branch of the model.
\<close>

type_synonym byte = "8 word"

datatype StackElem = Uint64 int | Bytes "byte list"

text \<open>
  Modelled from the spec: \<open>errors/errors-list.ts\<close> is absent. Every fatal condition has
  a named kind and a stable numeric code of its own; the kinds below are the ones the
  modelled code throws. \<open>REJECTED_BY_LOGIC\<close> is the kind numbered 1007 (the comment in
  \<open>Ctx.processTransactions\<close> says so). \<open>STACK_OVERFLOW\<close> and \<open>STACK_UNDERFLOW\<close> stand
  for the two fatal conditions of the stack, for which the spec gives no name.
\<close>

datatype error_kind =
    ASSERT_STACK_LENGTH
  | INVALID_TYPE
  | UINT64_OVERFLOW
  | UINT64_UNDERFLOW
  | INVALID_UINT8
  | INDEX_OUT_OF_BOUND
  | SUBSTRING_END_BEFORE_START
  | SUBSTRING_RANGE_BEYOND
  | LONG_INPUT_ERROR
  | STACK_OVERFLOW
  | STACK_UNDERFLOW
  | REJECTED_BY_LOGIC
  | TEAL_ENCOUNTERED_ERR
  | ACCOUNT_DOES_NOT_EXIST
  | APP_NOT_FOUND
  | ASSET_NOT_FOUND
  | ASA_NOT_OPTIN
  | ACCOUNT_ASSET_FROZEN
  | MANAGER_ERROR
  | FREEZE_ERROR
  | CLAWBACK_ERROR
  | INSUFFICIENT_ACCOUNT_BALANCE
  | INSUFFICIENT_ACCOUNT_ASSETS
  | INVALID_TRANSACTION_PARAMS
  | LOGIC_SIGNATURE_NOT_FOUND
  | LOGIC_SIGNATURE_VALIDATION_FAILED

text \<open>
  A thrown value is either the repository's error class (\<open>RuntimeError\<close>, called
  \<open>TealError\<close> in the older files) carrying its kind, or a plain JavaScript \<open>Error\<close> /
  \<open>TypeError\<close> with a message.
\<close>

datatype error = RuntimeError error_kind | JsError string

text \<open>Sequencing of fallible steps: the first thrown error ends the computation.\<close>

fun ebind :: "error + 'a \<Rightarrow> ('a \<Rightarrow> error + 'b) \<Rightarrow> error + 'b" where
  "ebind (Inl e) f = Inl e"
| "ebind (Inr x) f = f x"

text \<open>
  Modelled from the spec: \<open>lib/constants.ts\<close> is absent; \<open>MAX_UINT64 = 2^64 - 1\<close>,
  a uint8 lies in \<open>0..255\<close>, and the stack holds at most 1000 values.
\<close>

definition MAX_UINT64 :: int where
  "MAX_UINT64 = 2 ^ 64 - 1"

definition MIN_UINT64 :: int where
  "MIN_UINT64 = 0"

definition MAX_UINT8 :: int where
  "MAX_UINT8 = 255"

definition MIN_UINT8 :: int where
  "MIN_UINT8 = 0"

definition MAX_STACK_DEPTH :: nat where
  "MAX_STACK_DEPTH = 1000"

text \<open>
  Modelled from the spec: \<open>lib/stack.ts\<close> is absent. The stack is an ordered sequence of
  values with maximum depth 1000; pushing beyond it and popping the empty stack are fatal.
  The head of the list is the top of the stack.
\<close>

type_synonym TEALStack = "StackElem list"

definition push :: "StackElem \<Rightarrow> TEALStack \<Rightarrow> error + TEALStack" where
  "push v st =
     (if length st \<ge> MAX_STACK_DEPTH then Inl (RuntimeError STACK_OVERFLOW)
      else Inr (v # st))"

fun pop :: "TEALStack \<Rightarrow> error + (StackElem \<times> TEALStack)" where
  "pop [] = Inl (RuntimeError STACK_UNDERFLOW)"
| "pop (v # st) = Inr (v, st)"

section \<open>The helpers of class \<open>Op\<close> (\<open>interpreter/opcode.ts\<close>)\<close>

text \<open>
  Class \<open>Op\<close> is under \<open>src/\<close> in the version of the \<open>algorand-js\<close> package; the
  opcodes of the runtime package call the same helpers with one more argument, the line
  number that goes into the error message. The value popped from the stack has already
  been found to exist, so \<open>assertBigInt\<close> and \<open>assertBytes\<close> decide on its type alone.
\<close>

definition assertMinStackLen :: "TEALStack \<Rightarrow> nat \<Rightarrow> error + unit" where
  "assertMinStackLen st minLen =
     (if length st < minLen then Inl (RuntimeError ASSERT_STACK_LENGTH) else Inr ())"

definition checkOverflow :: "int \<Rightarrow> error + unit" where
  "checkOverflow num =
     (if num > MAX_UINT64 then Inl (RuntimeError UINT64_OVERFLOW) else Inr ())"

definition checkUnderflow :: "int \<Rightarrow> error + unit" where
  "checkUnderflow num =
     (if num < MIN_UINT64 then Inl (RuntimeError UINT64_UNDERFLOW) else Inr ())"

fun assertBigInt :: "StackElem \<Rightarrow> error + int" where
  "assertBigInt (Uint64 a) = Inr a"
| "assertBigInt (Bytes b) = Inl (RuntimeError INVALID_TYPE)"

fun assertBytes :: "StackElem \<Rightarrow> error + byte list" where
  "assertBytes (Bytes b) = Inr b"
| "assertBytes (Uint64 a) = Inl (RuntimeError INVALID_TYPE)"

definition assertUint8 :: "int \<Rightarrow> error + int" where
  "assertUint8 a =
     (if a < MIN_UINT8 \<or> a > MAX_UINT8 then Inl (RuntimeError INVALID_UINT8) else Inr a)"

definition checkIndexBound :: "int \<Rightarrow> 'a list \<Rightarrow> error + unit" where
  "checkIndexBound idx arr =
     (if \<not> (idx \<ge> 0 \<and> idx < int (length arr)) then Inl (RuntimeError INDEX_OUT_OF_BOUND)
      else Inr ())"

section \<open>Wide arithmetic: \<open>addw\<close> and \<open>mulw\<close>\<close>

text \<open>
  \<open>Addw.execute\<close>: pops A then B, adds them as bigints, and pushes the carry and then
  the sum, so that the sum is on top.
\<close>

definition Addw_execute :: "TEALStack \<Rightarrow> error + TEALStack" where
  "Addw_execute stack =
     ebind (assertMinStackLen stack 2) (\<lambda>_.
     ebind (pop stack) (\<lambda>(x, st1).
     ebind (assertBigInt x) (\<lambda>valueA.
     ebind (pop st1) (\<lambda>(y, st2).
     ebind (assertBigInt y) (\<lambda>valueB.
       let valueC = valueA + valueB in
       if valueC > MAX_UINT64 then
         (let valueC' = valueC - MAX_UINT64 in
          ebind (push (Uint64 1) st2) (\<lambda>st3. push (Uint64 (valueC' - 1)) st3))
       else
         ebind (push (Uint64 0) st2) (\<lambda>st3. push (Uint64 valueC) st3))))))"

text \<open>
  \<open>Mulw.execute\<close>: the product is split into its low 64 bits (\<open>result & MAX_UINT64\<close>)
  and the rest (\<open>result >> 64\<close>); each half goes through \<open>checkOverflow\<close>; the high
  word is pushed first and the low word on top.
\<close>

definition Mulw_execute :: "TEALStack \<Rightarrow> error + TEALStack" where
  "Mulw_execute stack =
     ebind (assertMinStackLen stack 2) (\<lambda>_.
     ebind (pop stack) (\<lambda>(x, st1).
     ebind (assertBigInt x) (\<lambda>valueA.
     ebind (pop st1) (\<lambda>(y, st2).
     ebind (assertBigInt y) (\<lambda>valueB.
       let result = valueA * valueB;
           low = and result MAX_UINT64 in
       ebind (checkOverflow low) (\<lambda>_.
         let high = drop_bit 64 result in
         ebind (checkOverflow high) (\<lambda>_.
         ebind (push (Uint64 high) st2) (\<lambda>st3. push (Uint64 low) st3))))))))"

section \<open>Byte conversions: \<open>itob\<close> and \<open>btoi\<close>\<close>

text \<open>
  Modelled from the spec: \<open>encodeUint64\<close> and \<open>decodeUint64\<close> are imported from the
  \<open>algosdk\<close> package, which is not under \<open>src/\<close>. The spec has \<open>itob\<close> map a u64 to
  its 8 big-endian bytes and \<open>btoi\<close> read a byte string of length at most 8 as a
  big-endian u64, a longer one failing with \<open>LONG_INPUT_ERROR\<close>.
\<close>

fun writeBE :: "nat \<Rightarrow> int \<Rightarrow> byte list" where
  "writeBE 0 n = []"
| "writeBE (Suc k) n = writeBE k (n div 256) @ [word_of_int (n mod 256)]"

definition readBE :: "byte list \<Rightarrow> int" where
  "readBE bs = foldl (\<lambda>acc b. acc * 256 + uint b) 0 bs"

definition encodeUint64 :: "int \<Rightarrow> error + byte list" where
  "encodeUint64 num =
     (if num < 0 \<or> num > MAX_UINT64 then Inl (JsError ''Input is not a 64-bit unsigned integer'')
      else Inr (writeBE 8 num))"

definition decodeUint64 :: "byte list \<Rightarrow> error + int" where
  "decodeUint64 data =
     (if length data > 8 then Inl (RuntimeError LONG_INPUT_ERROR) else Inr (readBE data))"

definition Itob_execute :: "TEALStack \<Rightarrow> error + TEALStack" where
  "Itob_execute stack =
     ebind (assertMinStackLen stack 1) (\<lambda>_.
     ebind (pop stack) (\<lambda>(x, st1).
     ebind (assertBigInt x) (\<lambda>uint64.
     ebind (encodeUint64 uint64) (\<lambda>bs. push (Bytes bs) st1))))"

definition Btoi_execute :: "TEALStack \<Rightarrow> error + TEALStack" where
  "Btoi_execute stack =
     ebind (assertMinStackLen stack 1) (\<lambda>_.
     ebind (pop stack) (\<lambda>(x, st1).
     ebind (assertBytes x) (\<lambda>bytes.
     ebind (decodeUint64 bytes) (\<lambda>uint64. push (Uint64 uint64) st1))))"

section \<open>\<open>substring\<close> and \<open>substring3\<close>\<close>

text \<open>
  \<open>Uint8Array.prototype.slice(start, end)\<close> of JavaScript: a negative index counts from
  the end, both indices are clamped to the length, and an empty range gives the empty
  array.
\<close>

definition slice :: "byte list \<Rightarrow> int \<Rightarrow> int \<Rightarrow> byte list" where
  "slice xs start end' =
     (let len = int (length xs);
          k = (if start < 0 then max (len + start) 0 else min start len);
          final = (if end' < 0 then max (len + end') 0 else min end' len);
          count = max (final - k) 0
      in take (nat count) (drop (nat k) xs))"

text \<open>\<open>Op.subString\<close>: the two range checks, in the order of the source, then the slice.\<close>

definition subString :: "int \<Rightarrow> int \<Rightarrow> byte list \<Rightarrow> error + byte list" where
  "subString start end' byteString =
     (if end' < start then Inl (RuntimeError SUBSTRING_END_BEFORE_START)
      else if start > int (length byteString) \<or> end' > int (length byteString)
        then Inl (RuntimeError SUBSTRING_RANGE_BEYOND)
      else Inr (slice byteString start end'))"

text \<open>
  \<open>Substring.execute\<close>: the two indices are immediates of the opcode (digit strings
  turned into bigints by the constructor) and must be uint8.
\<close>

definition Substring_execute :: "int \<Rightarrow> int \<Rightarrow> TEALStack \<Rightarrow> error + TEALStack" where
  "Substring_execute this_start this_end stack =
     ebind (pop stack) (\<lambda>(x, st1).
     ebind (assertBytes x) (\<lambda>byteString.
     ebind (assertUint8 this_start) (\<lambda>start.
     ebind (assertUint8 this_end) (\<lambda>end'.
     ebind (subString start end' byteString) (\<lambda>r. push (Bytes r) st1)))))"

text \<open>\<open>Substring3.execute\<close>: the byte string is on top, the end index below it, the start below that.\<close>

definition Substring3_execute :: "TEALStack \<Rightarrow> error + TEALStack" where
  "Substring3_execute stack =
     ebind (pop stack) (\<lambda>(x, st1).
     ebind (assertBytes x) (\<lambda>byteString.
     ebind (pop st1) (\<lambda>(y, st2).
     ebind (assertBigInt y) (\<lambda>end'.
     ebind (pop st2) (\<lambda>(z, st3).
     ebind (assertBigInt z) (\<lambda>start.
     ebind (subString start end' byteString) (\<lambda>r. push (Bytes r) st3)))))))"

section \<open>\<open>return\<close> and the verdict of a run\<close>

text \<open>The \<open>while (stack.length()) stack.pop()\<close> loop of \<open>Return.execute\<close>.\<close>

fun popAll :: "TEALStack \<Rightarrow> TEALStack" where
  "popAll [] = []"
| "popAll (v # st) = popAll st"

text \<open>
  \<open>Return.execute\<close>: keeps the top value as the only value of the stack and sets the
  instruction index to the number of instructions, which ends the run. The result is the
  new stack and the new instruction index.
\<close>

definition Return_execute :: "nat \<Rightarrow> TEALStack \<Rightarrow> error + (TEALStack \<times> nat)" where
  "Return_execute instructions_length stack =
     ebind (assertMinStackLen stack 1) (\<lambda>_.
     ebind (pop stack) (\<lambda>(last, st1).
     ebind (push last (popAll st1)) (\<lambda>st2. Inr (st2, instructions_length))))"

text \<open>
  Modelled from the spec: \<open>interpreter/interpreter.ts\<close> is absent. On termination without
  a fatal error the stack must contain exactly one value and that value must be a
  non-zero u64; otherwise the program is rejected (\<open>REJECTED_BY_LOGIC\<close>). A u64 is a
  bigint from \<open>MIN_UINT64\<close> to \<open>MAX_UINT64\<close>: a negative bigint, which the unmasked \<open>~\<close>
  of \<open>BitwiseNot\<close> can leave on the stack, is none, nor is a bigint above \<open>MAX_UINT64\<close>.
\<close>

definition isUint64 :: "int \<Rightarrow> bool" where
  "isUint64 n = (MIN_UINT64 \<le> n \<and> n \<le> MAX_UINT64)"

definition finalVerdict :: "TEALStack \<Rightarrow> error + unit" where
  "finalVerdict stack =
     (if length stack = 1 then
        ebind (pop stack) (\<lambda>(s, _).
          case s of
            Bytes b \<Rightarrow> Inl (RuntimeError REJECTED_BY_LOGIC)
          | Uint64 n \<Rightarrow>
              if isUint64 n \<and> n \<noteq> 0 then Inr () else Inl (RuntimeError REJECTED_BY_LOGIC))
      else Inl (RuntimeError REJECTED_BY_LOGIC))"

section \<open>World state\<close>

text \<open>
  The state of the runtime (\<open>State\<close>) holds three JavaScript \<open>Map\<close>s: accounts by
  address, and for each application and asset id the address of its creator. Account
  addresses are strings; the public-key form of an address inside an encoded transaction
  is identified with its string form. Amounts are JavaScript numbers holding integral
  micro-units; they are integers here, and \<open>+\<close> and \<open>-\<close> on them are the number
  arithmetic as long as the operands and the result are safe integers (below \<open>2^53\<close>
  in magnitude); \<open>Ctx.transferAlgo\<close> is modelled with the rounding that the number
  arithmetic does beyond that range. Application and asset
  ids are numbers used as map keys; they are integers, and the conversion \<open>Number(appID)\<close>
  of a bigint is the identity.
\<close>

text \<open>
  Modelled from the spec: \<open>account.ts\<close> of the runtime package (class \<open>StoreAccount\<close>)
  and its \<open>types.ts\<close> are absent. An account has its address, its balance, its
  minimum-balance requirement, its asset holdings (amount and frozen flag), its local
  state per opted-in application (a key-value map and a schema), and the applications
  (programs, creator, global state, schemas) and the assets (parameters with the four
  role addresses) it created.
\<close>

type_synonym AccountAddress = string

record AssetHolding =
  holding_amount :: int
  is_frozen :: bool

record AssetDef =
  asset_creator :: AccountAddress
  asset_total :: int
  decimals :: int
  default_frozen :: bool
  manager :: AccountAddress
  reserve :: AccountAddress
  freeze :: AccountAddress
  clawback :: AccountAddress

record SSCSchemaConfig =
  num_byte_slice :: int
  num_uint :: int

record SSCAttributesM =
  approval_program :: string
  clear_state_program :: string
  app_creator :: AccountAddress
  global_state :: "byte list \<rightharpoonup> StackElem"
  global_state_schema :: SSCSchemaConfig
  local_state_schema :: SSCSchemaConfig

record AppLocalStateM =
  key_value :: "byte list \<rightharpoonup> StackElem"
  schema :: SSCSchemaConfig

record StoreAccount =
  address :: AccountAddress
  amount :: int
  minBalance :: int
  assets :: "int \<rightharpoonup> AssetHolding"
  appsLocalState :: "int \<rightharpoonup> AppLocalStateM"
  createdApps :: "int \<rightharpoonup> SSCAttributesM"
  createdAssets :: "int \<rightharpoonup> AssetDef"

record State =
  accounts :: "AccountAddress \<rightharpoonup> StoreAccount"
  globalApps :: "int \<rightharpoonup> AccountAddress"
  assetDefs :: "int \<rightharpoonup> AccountAddress"

text \<open>
  The encoded transaction (\<open>Txn\<close>), with the fields the modelled code reads: the fee,
  the sender, the application id, the foreign applications and the accounts array.
\<close>

record Txn =
  fee :: int
  snd_addr :: AccountAddress
  apid :: "int option"
  apfa :: "int list option"
  apat :: "AccountAddress list option"

text \<open>
  The transient context (\<open>Context\<close>, class \<open>Ctx\<close>): a state, the current transaction
  (possibly \<open>undefined\<close>), the group and the program arguments.
\<close>

record Ctx =
  state :: State
  tx :: "Txn option"
  gtxs :: "Txn list"
  args :: "byte list list"

subsection \<open>Transaction parameters\<close>

datatype SignType = SecretKey | LogicSignature

datatype ExecutionMode = STATELESS | STATEFUL

record LogicSig =
  logic :: string
  lsig_args :: "byte list list"

record TxParams =
  totalFee :: "int option"
  closeRemainderTo :: "AccountAddress option"

record AssetModFields =
  mod_manager :: AccountAddress
  mod_reserve :: AccountAddress
  mod_freeze :: AccountAddress
  mod_clawback :: AccountAddress

text \<open>
  \<open>ExecParams\<close> is a union discriminated by \<open>type\<close> (a \<open>TransactionType\<close>); the
  variant carries the fields of its kind. \<open>OtherType\<close> stands for every transaction
  type that the \<open>switch\<close> statements below have no case for.
\<close>

datatype TxnBody =
    TransferAlgo AccountAddress int
  | TransferAsset AccountAddress int int
  | CallNoOpSSC int
  | CloseSSC int
  | ClearSSC int
  | DeleteSSC int
  | ModifyAsset int AssetModFields
  | FreezeAsset int AccountAddress bool
  | RevokeAsset AccountAddress int AccountAddress int
  | DestroyAsset int
  | OtherType

record ExecParams =
  body :: TxnBody
  sign :: SignType
  fromAccount_addr :: AccountAddress
  lsig :: "LogicSig option"
  payFlags :: TxParams

text \<open>
  The parts of the runtime that are not under \<open>src/\<close> and that the engine calls:
  the interpreter (\<open>Runtime.run\<close> creates an \<open>Interpreter\<close> and executes a program on the
  context; it may have changed the context when it throws, so it returns the thrown
  error, if any, together with the context it leaves), the verification of a logic
  signature (\<open>LogicSig.verify\<close> of \<open>algosdk\<close>), and the construction of an encoded
  transaction (\<open>mkTransaction\<close> and \<open>get_obj_for_encoding\<close>). They are parameters of the
  model.
\<close>

record Externals =
  ext_run :: "string \<Rightarrow> ExecutionMode \<Rightarrow> Ctx \<Rightarrow> error option \<times> Ctx"
  ext_verify :: "LogicSig \<Rightarrow> AccountAddress \<Rightarrow> bool"
  ext_mkTxn :: "ExecParams \<Rightarrow> error + Txn"

subsection \<open>Assertions of class \<open>Runtime\<close>\<close>

definition assertAccountDefined :: "StoreAccount option \<Rightarrow> error + StoreAccount" where
  "assertAccountDefined a =
     (case a of None \<Rightarrow> Inl (RuntimeError ACCOUNT_DOES_NOT_EXIST) | Some acc \<Rightarrow> Inr acc)"

definition assertAddressDefined :: "AccountAddress option \<Rightarrow> error + AccountAddress" where
  "assertAddressDefined addr =
     (case addr of None \<Rightarrow> Inl (RuntimeError ACCOUNT_DOES_NOT_EXIST) | Some a \<Rightarrow> Inr a)"

definition assertAppDefined :: "SSCAttributesM option \<Rightarrow> error + SSCAttributesM" where
  "assertAppDefined app =
     (case app of None \<Rightarrow> Inl (RuntimeError APP_NOT_FOUND) | Some a \<Rightarrow> Inr a)"

definition assertAssetDefined :: "AssetDef option \<Rightarrow> error + AssetDef" where
  "assertAssetDefined a =
     (case a of None \<Rightarrow> Inl (RuntimeError ASSET_NOT_FOUND) | Some d \<Rightarrow> Inr d)"

definition assertAmbiguousTxnParams :: "ExecParams \<Rightarrow> error + unit" where
  "assertAmbiguousTxnParams txnParams =
     (if sign txnParams = SecretKey \<and> lsig txnParams \<noteq> None
      then Inl (RuntimeError INVALID_TRANSACTION_PARAMS) else Inr ())"

text \<open>
  \<open>Runtime.validateLsigAndRun\<close>: the logic signature must be present and must verify
  for the sender; its program is then run in stateless mode. The result is the thrown
  error, if any, and the context as it is left.
\<close>

definition validateLsigAndRun :: "Externals \<Rightarrow> ExecParams \<Rightarrow> Ctx \<Rightarrow> error option \<times> Ctx" where
  "validateLsigAndRun ext txnParam c =
     (case lsig txnParam of
        None \<Rightarrow> (Some (RuntimeError LOGIC_SIGNATURE_NOT_FOUND), c)
      | Some l \<Rightarrow>
          if \<not> ext_verify ext l (fromAccount_addr txnParam)
          then (Some (RuntimeError LOGIC_SIGNATURE_VALIDATION_FAILED), c)
          else ext_run ext (logic l) STATELESS c)"

section \<open>The execution engine: class \<open>Ctx\<close>\<close>

text \<open>
  The methods of \<open>Ctx\<close> mutate account objects reached through \<open>state.accounts\<close>. An
  account object is identified by the key under which the map holds it, so a statement
  \<open>acc.amount += x\<close> reads and writes the account at that key in the current state; two
  references obtained under the same key are the same object.
\<close>

definition getAccount :: "AccountAddress \<Rightarrow> Ctx \<Rightarrow> error + StoreAccount" where
  "getAccount addr c = assertAccountDefined (accounts (state c) addr)"

definition assertMinBalance :: "int \<Rightarrow> AccountAddress \<Rightarrow> Ctx \<Rightarrow> error + unit" where
  "assertMinBalance amt addr c =
     ebind (getAccount addr c) (\<lambda>account.
       if amount account - amt < minBalance account
       then Inl (RuntimeError INSUFFICIENT_ACCOUNT_BALANCE) else Inr ())"

definition getAssetHolding :: "int \<Rightarrow> AccountAddress \<Rightarrow> Ctx \<Rightarrow> error + AssetHolding" where
  "getAssetHolding assetIndex addr c =
     ebind (assertAccountDefined (accounts (state c) addr)) (\<lambda>account.
       case assets account assetIndex of
         None \<Rightarrow> Inl (RuntimeError ASA_NOT_OPTIN)
       | Some assetHolding \<Rightarrow> Inr assetHolding)"

definition assertAssetNotFrozen :: "int \<Rightarrow> AccountAddress \<Rightarrow> Ctx \<Rightarrow> error + unit" where
  "assertAssetNotFrozen assetIndex addr c =
     ebind (getAssetHolding assetIndex addr c) (\<lambda>assetHolding.
       if is_frozen assetHolding then Inl (RuntimeError ACCOUNT_ASSET_FROZEN) else Inr ())"

definition getAssetAccount :: "int \<Rightarrow> Ctx \<Rightarrow> error + (AccountAddress \<times> StoreAccount)" where
  "getAssetAccount assetId c =
     (case assetDefs (state c) assetId of
        None \<Rightarrow> Inl (RuntimeError ASSET_NOT_FOUND)
      | Some addr \<Rightarrow>
          ebind (assertAccountDefined (accounts (state c) addr)) (\<lambda>acc. Inr (addr, acc)))"

definition getAssetDef :: "int \<Rightarrow> Ctx \<Rightarrow> error + AssetDef" where
  "getAssetDef assetId c =
     ebind (getAssetAccount assetId c) (\<lambda>(addr, creatorAcc).
       assertAssetDefined (createdAssets creatorAcc assetId))"

definition getApp :: "int option \<Rightarrow> Ctx \<Rightarrow> error + SSCAttributesM" where
  "getApp appId c =
     (case appId of
        None \<Rightarrow> Inl (RuntimeError APP_NOT_FOUND)
      | Some i \<Rightarrow>
          (case globalApps (state c) i of
             None \<Rightarrow> Inl (RuntimeError APP_NOT_FOUND)
           | Some accAddress \<Rightarrow>
               ebind (assertAccountDefined (accounts (state c) accAddress)) (\<lambda>account.
                 assertAppDefined (createdApps account i))))"

text \<open>Writing a field of the account object held under a key.\<close>

definition updAccount :: "AccountAddress \<Rightarrow> (StoreAccount \<Rightarrow> StoreAccount) \<Rightarrow> Ctx \<Rightarrow> Ctx" where
  "updAccount addr f c =
     (case accounts (state c) addr of
        None \<Rightarrow> c
      | Some acc \<Rightarrow> c\<lparr>state := (state c)\<lparr>accounts := (accounts (state c))(addr \<mapsto> f acc)\<rparr>\<rparr>)"

definition amountOf :: "AccountAddress \<Rightarrow> Ctx \<Rightarrow> int" where
  "amountOf addr c = (case accounts (state c) addr of None \<Rightarrow> 0 | Some acc \<Rightarrow> amount acc)"

text \<open>
  The balances that \<open>Ctx.transferAlgo\<close> writes are JavaScript numbers, IEEE doubles
  with a significand of 53 bits. The sum or difference of two integral numbers is the
  exact integer rounded to the nearest double, a tie going to the double with the even
  significand. Between \<open>2^e\<close> and \<open>2^(e+1)\<close>, for \<open>e\<close> from 53 on, neighbouring doubles
  are \<open>2^(e-52)\<close> apart; below \<open>2^53\<close> every integer is a double. (Magnitudes from
  \<open>2^1024\<close> on, where a double is infinite, are left out.)
\<close>

function doubleUlp :: "int \<Rightarrow> int" where
  "doubleUlp n = (if n < 2 ^ 53 then 1 else 2 * doubleUlp (n div 2))"
  by pat_completeness auto

termination
  by (relation "measure nat") auto

declare doubleUlp.simps [simp del]

definition roundMagnitude :: "int \<Rightarrow> int" where
  "roundMagnitude n =
     (let u = doubleUlp n; q = n div u; r = n mod u
      in if 2 * r < u then q * u
         else if 2 * r > u then (q + 1) * u
         else if even q then q * u else (q + 1) * u)"

definition jsNumber :: "int \<Rightarrow> int" where
  "jsNumber x = (if x \<ge> 0 then roundMagnitude x else - roundMagnitude (- x))"

text \<open>\<open>Number.isSafeInteger\<close>: the integers from \<open>-(2^53 - 1)\<close> to \<open>2^53 - 1\<close>.\<close>

definition safeInteger :: "int \<Rightarrow> bool" where
  "safeInteger n = (- (2 ^ 53 - 1) \<le> n \<and> n \<le> 2 ^ 53 - 1)"

text \<open>
  \<open>Ctx.transferAlgo\<close>. \<open>payFlags.closeRemainderTo\<close> is tested for truthiness, so the
  empty string counts as absent. Each of \<open>-=\<close> and \<open>+=\<close> stores the rounded result.
  The difference that \<open>assertMinBalance\<close> compares is exact, as the number difference
  is while it is a safe integer.
\<close>

definition transferAlgo :: "AccountAddress \<Rightarrow> AccountAddress \<Rightarrow> int \<Rightarrow> TxParams \<Rightarrow> Ctx \<Rightarrow> error + Ctx" where
  "transferAlgo from to amountMicroAlgos flags c =
     ebind (getAccount from c) (\<lambda>fromAccount.
     ebind (getAccount to c) (\<lambda>toAccount.
     ebind (assertMinBalance amountMicroAlgos (address fromAccount) c) (\<lambda>_.
       let c1 = updAccount from
                  (\<lambda>a. a\<lparr>amount := jsNumber (amount a - amountMicroAlgos)\<rparr>) c;
           c2 = updAccount to
                  (\<lambda>a. a\<lparr>amount := jsNumber (amount a + amountMicroAlgos)\<rparr>) c1
       in (case closeRemainderTo flags of
             None \<Rightarrow> Inr c2
           | Some closeTo \<Rightarrow>
               if closeTo = [] then Inr c2
               else
                 ebind (getAccount closeTo c2) (\<lambda>closeRemToAcc.
                   let c3 = updAccount closeTo
                              (\<lambda>a. a\<lparr>amount := jsNumber (amount a + amountOf from c2)\<rparr>) c2;
                       c4 = updAccount from (\<lambda>a. a\<lparr>amount := 0\<rparr>) c3
                   in Inr c4)))))"

text \<open>\<open>Ctx.deductFee\<close>: the fee is read from the encoded transaction at the index.\<close>

definition deductFee :: "AccountAddress \<Rightarrow> nat \<Rightarrow> Ctx \<Rightarrow> error + Ctx" where
  "deductFee sender index c =
     ebind (getAccount sender c) (\<lambda>fromAccount.
       if index \<ge> length (gtxs c) then Inl (JsError ''TypeError'')
       else
         (let fee' = fee (gtxs c ! index) in
          ebind (assertMinBalance fee' sender c) (\<lambda>_.
            Inr (updAccount sender (\<lambda>a. a\<lparr>amount := amount a - fee'\<rparr>) c))))"

text \<open>Writing a field of the asset holding that an account keeps for an asset.\<close>

definition updHolding :: "AccountAddress \<Rightarrow> int \<Rightarrow> (AssetHolding \<Rightarrow> AssetHolding) \<Rightarrow> Ctx \<Rightarrow> Ctx" where
  "updHolding addr assetIndex f c =
     updAccount addr (\<lambda>a.
       case assets a assetIndex of
         None \<Rightarrow> a
       | Some h \<Rightarrow> a\<lparr>assets := (assets a)(assetIndex \<mapsto> f h)\<rparr>) c"

definition holdingAmountOf :: "AccountAddress \<Rightarrow> int \<Rightarrow> Ctx \<Rightarrow> int" where
  "holdingAmountOf addr assetIndex c =
     (case accounts (state c) addr of
        None \<Rightarrow> 0
      | Some a \<Rightarrow> (case assets a assetIndex of None \<Rightarrow> 0 | Some h \<Rightarrow> holding_amount h))"

text \<open>\<open>Ctx.transferAsset\<close>.\<close>

definition transferAsset ::
  "AccountAddress \<Rightarrow> AccountAddress \<Rightarrow> int \<Rightarrow> int \<Rightarrow> TxParams \<Rightarrow> Ctx \<Rightarrow> error + Ctx" where
  "transferAsset from to amt assetID flags c =
     ebind (getAssetHolding assetID from c) (\<lambda>fromAssetHolding.
     ebind (getAssetHolding assetID to c) (\<lambda>toAssetHolding.
     ebind (assertAssetNotFrozen assetID from c) (\<lambda>_.
     ebind (assertAssetNotFrozen assetID to c) (\<lambda>_.
       if holding_amount fromAssetHolding - amt < 0
       then Inl (RuntimeError INSUFFICIENT_ACCOUNT_ASSETS)
       else
         (let c1 = updHolding from assetID (\<lambda>h. h\<lparr>holding_amount := holding_amount h - amt\<rparr>) c;
              c2 = updHolding to assetID (\<lambda>h. h\<lparr>holding_amount := holding_amount h + amt\<rparr>) c1
          in (case closeRemainderTo flags of
                None \<Rightarrow> Inr c2
              | Some closeTo \<Rightarrow>
                  if closeTo = [] then Inr c2
                  else
                    ebind (getAssetHolding assetID closeTo c2) (\<lambda>closeRemToAssetHolding.
                      let c3 = updHolding closeTo assetID
                                 (\<lambda>h. h\<lparr>holding_amount :=
                                          holding_amount h + holdingAmountOf from assetID c2\<rparr>) c2;
                          c4 = updHolding from assetID (\<lambda>h. h\<lparr>holding_amount := 0\<rparr>) c3
                      in Inr c4)))))))"

text \<open>
  Modelled from the spec: the methods of \<open>StoreAccount\<close> that the engine calls
  (\<open>account.ts\<close> of the runtime package is absent). A role address of an asset, once
  non-zero, cannot be set to the zero address (the blank string here); freezing sets the
  flag of the holding; an asset is destroyed only when its creator holds the entire
  supply; deleting an application removes it, with its global state, from the
  applications its creator created; closing or clearing removes the local-state slot of
  the account.
\<close>

definition zeroAddress :: AccountAddress where
  "zeroAddress = []"

definition resetsRole :: "AccountAddress \<Rightarrow> AccountAddress \<Rightarrow> bool" where
  "resetsRole current new = (current \<noteq> zeroAddress \<and> new = zeroAddress)"

definition acc_modifyAsset :: "int \<Rightarrow> AssetModFields \<Rightarrow> StoreAccount \<Rightarrow> error + StoreAccount" where
  "acc_modifyAsset assetId modFields a =
     (case createdAssets a assetId of
        None \<Rightarrow> Inl (RuntimeError ASSET_NOT_FOUND)
      | Some d \<Rightarrow>
          if resetsRole (manager d) (mod_manager modFields)
             \<or> resetsRole (reserve d) (mod_reserve modFields)
             \<or> resetsRole (freeze d) (mod_freeze modFields)
             \<or> resetsRole (clawback d) (mod_clawback modFields)
          then Inl (JsError ''Cannot reset a blank address'')
          else Inr (a\<lparr>createdAssets := (createdAssets a)(assetId \<mapsto>
                 d\<lparr>manager := mod_manager modFields, reserve := mod_reserve modFields,
                   freeze := mod_freeze modFields, clawback := mod_clawback modFields\<rparr>)\<rparr>))"

definition acc_setFreezeState :: "int \<Rightarrow> bool \<Rightarrow> StoreAccount \<Rightarrow> error + StoreAccount" where
  "acc_setFreezeState assetId st a =
     (case assets a assetId of
        None \<Rightarrow> Inl (RuntimeError ASA_NOT_OPTIN)
      | Some h \<Rightarrow> Inr (a\<lparr>assets := (assets a)(assetId \<mapsto> h\<lparr>is_frozen := st\<rparr>)\<rparr>))"

definition acc_destroyAsset :: "int \<Rightarrow> StoreAccount \<Rightarrow> error + StoreAccount" where
  "acc_destroyAsset assetId a =
     (case createdAssets a assetId of
        None \<Rightarrow> Inl (RuntimeError ASSET_NOT_FOUND)
      | Some d \<Rightarrow>
          (case assets a assetId of
             None \<Rightarrow> Inl (JsError ''All of the created assets should be in creator's account'')
           | Some h \<Rightarrow>
               if holding_amount h \<noteq> asset_total d
               then Inl (JsError ''All of the created assets should be in creator's account'')
               else Inr (a\<lparr>createdAssets := (createdAssets a)(assetId := None)\<rparr>)))"

definition acc_deleteApp :: "int \<Rightarrow> StoreAccount \<Rightarrow> StoreAccount" where
  "acc_deleteApp appId a = a\<lparr>createdApps := (createdApps a)(appId := None)\<rparr>"

definition acc_closeApp :: "int \<Rightarrow> StoreAccount \<Rightarrow> StoreAccount" where
  "acc_closeApp appId a = a\<lparr>appsLocalState := (appsLocalState a)(appId := None)\<rparr>"

definition acc_getLocalState :: "int \<Rightarrow> byte list \<Rightarrow> StoreAccount \<Rightarrow> StackElem option" where
  "acc_getLocalState appId key a =
     (case appsLocalState a appId of None \<Rightarrow> None | Some l \<Rightarrow> key_value l key)"

text \<open>Storing the result of a fallible account method back under the account's key.\<close>

definition setAccount :: "AccountAddress \<Rightarrow> StoreAccount \<Rightarrow> Ctx \<Rightarrow> Ctx" where
  "setAccount addr a c = c\<lparr>state := (state c)\<lparr>accounts := (accounts (state c))(addr \<mapsto> a)\<rparr>\<rparr>"

definition modifyAsset :: "int \<Rightarrow> AssetModFields \<Rightarrow> Ctx \<Rightarrow> error + Ctx" where
  "modifyAsset assetId modFields c =
     ebind (getAssetAccount assetId c) (\<lambda>(addr, creatorAcc).
     ebind (acc_modifyAsset assetId modFields creatorAcc) (\<lambda>a. Inr (setAccount addr a c)))"

definition freezeAsset :: "int \<Rightarrow> AccountAddress \<Rightarrow> bool \<Rightarrow> Ctx \<Rightarrow> error + Ctx" where
  "freezeAsset assetId freezeTarget freezeState c =
     ebind (assertAccountDefined (accounts (state c) freezeTarget)) (\<lambda>acc.
     ebind (acc_setFreezeState assetId freezeState acc) (\<lambda>a. Inr (setAccount freezeTarget a c)))"

definition revokeAsset :: "AccountAddress \<Rightarrow> int \<Rightarrow> AccountAddress \<Rightarrow> int \<Rightarrow> Ctx \<Rightarrow> error + Ctx" where
  "revokeAsset recipient assetID revocationTarget amt c =
     ebind (getAssetHolding assetID revocationTarget c) (\<lambda>fromAssetHolding.
     ebind (getAssetHolding assetID recipient c) (\<lambda>toAssetHolding.
       if holding_amount fromAssetHolding - amt < 0
       then Inl (RuntimeError INSUFFICIENT_ACCOUNT_ASSETS)
       else
         (let c1 = updHolding revocationTarget assetID
                     (\<lambda>h. h\<lparr>holding_amount := holding_amount h - amt\<rparr>) c;
              c2 = updHolding recipient assetID
                     (\<lambda>h. h\<lparr>holding_amount := holding_amount h + amt\<rparr>) c1
          in Inr c2)))"

definition destroyAsset :: "int \<Rightarrow> Ctx \<Rightarrow> error + Ctx" where
  "destroyAsset assetId c =
     ebind (getAssetAccount assetId c) (\<lambda>(addr, creatorAcc).
     ebind (acc_destroyAsset assetId creatorAcc) (\<lambda>a.
       let c1 = setAccount addr a c
       in Inr (c1\<lparr>state := (state c1)\<lparr>accounts :=
                 (\<lambda>k. map_option (\<lambda>v. v\<lparr>assets := (assets v)(assetId := None)\<rparr>)
                        (accounts (state c1) k))\<rparr>\<rparr>)))"

definition deleteApp :: "int \<Rightarrow> Ctx \<Rightarrow> error + Ctx" where
  "deleteApp appId c =
     (case globalApps (state c) appId of
        None \<Rightarrow> Inl (RuntimeError APP_NOT_FOUND)
      | Some accountAddr \<Rightarrow>
          ebind (assertAccountDefined (accounts (state c) accountAddr)) (\<lambda>account.
            let c1 = setAccount accountAddr (acc_deleteApp appId account) c
            in Inr (c1\<lparr>state := (state c1)\<lparr>globalApps := (globalApps (state c1))(appId := None)\<rparr>\<rparr>)))"

text \<open>\<open>Ctx.closeApp\<close>: the sender and the application must exist; the sender's local state goes.\<close>

definition closeApp :: "AccountAddress \<Rightarrow> int \<Rightarrow> Ctx \<Rightarrow> error + Ctx" where
  "closeApp sender appId c =
     ebind (getAccount sender c) (\<lambda>fromAccount.
     ebind (getApp (Some appId) c) (\<lambda>app.
     ebind (assertAppDefined (Some app)) (\<lambda>_.
       Inr (updAccount sender (acc_closeApp appId) c))))"

subsection \<open>\<open>Ctx.processTransactions\<close>\<close>

text \<open>A call of \<open>runtime.run\<close> outside a \<open>try\<close>: a thrown error propagates.\<close>

definition throwing :: "error option \<times> 'a \<Rightarrow> error + 'a" where
  "throwing r = (case r of (Some e, x) \<Rightarrow> Inl e | (None, x) \<Rightarrow> Inr x)"

definition nthOpt :: "'a list \<Rightarrow> nat \<Rightarrow> 'a option" where
  "nthOpt xs i = (if i < length xs then Some (xs ! i) else None)"

text \<open>
  The \<open>switch (txnParam.type)\<close> of the loop body. The result is the context and whether
  this transaction set \<open>clearErrorBool\<close>. In the \<open>ClearSSC\<close> case the call of the clear
  program is inside \<open>try\<close>: an error that is a \<open>RuntimeError\<close> numbered 1007 (rejected by
  logic) is caught, the local state is removed on the context as the program left it, and
  the flag is set; any other error is thrown again.
\<close>

definition runPayload :: "Externals \<Rightarrow> ExecParams \<Rightarrow> Ctx \<Rightarrow> error + (Ctx \<times> bool)" where
  "runPayload ext txnParam c =
     (case body txnParam of
        TransferAlgo toAccountAddr amountMicroAlgos \<Rightarrow>
          ebind (transferAlgo (fromAccount_addr txnParam) toAccountAddr amountMicroAlgos
                   (payFlags txnParam) c) (\<lambda>c'. Inr (c', False))
      | TransferAsset toAccountAddr amt assetID \<Rightarrow>
          ebind (transferAsset (fromAccount_addr txnParam) toAccountAddr amt assetID
                   (payFlags txnParam) c) (\<lambda>c'. Inr (c', False))
      | CallNoOpSSC appId \<Rightarrow>
          ebind (getApp (Some appId) c) (\<lambda>appParams.
          ebind (throwing (ext_run ext (approval_program appParams) STATEFUL c)) (\<lambda>c'.
            Inr (c', False)))
      | CloseSSC appId \<Rightarrow>
          ebind (getApp (Some appId) c) (\<lambda>appParams.
          ebind (throwing (ext_run ext (approval_program appParams) STATEFUL c)) (\<lambda>c'.
          ebind (closeApp (fromAccount_addr txnParam) appId c') (\<lambda>c''. Inr (c'', False))))
      | ClearSSC appId \<Rightarrow>
          ebind (getApp (Some appId) c) (\<lambda>app.
          ebind (assertAppDefined (Some app)) (\<lambda>appParams.
            case ext_run ext (clear_state_program appParams) STATEFUL c of
              (Some err, c') \<Rightarrow>
                if err = RuntimeError REJECTED_BY_LOGIC
                then ebind (closeApp (fromAccount_addr txnParam) appId c') (\<lambda>c''. Inr (c'', True))
                else Inl err
            | (None, c') \<Rightarrow>
                ebind (closeApp (fromAccount_addr txnParam) appId c') (\<lambda>c''. Inr (c'', False))))
      | DeleteSSC appId \<Rightarrow>
          ebind (getApp (Some appId) c) (\<lambda>appParams.
          ebind (throwing (ext_run ext (approval_program appParams) STATEFUL c)) (\<lambda>c'.
          ebind (deleteApp appId c') (\<lambda>c''. Inr (c'', False))))
      | ModifyAsset assetID modFields \<Rightarrow>
          ebind (getAssetDef assetID c) (\<lambda>asset.
            if manager asset \<noteq> fromAccount_addr txnParam then Inl (RuntimeError MANAGER_ERROR)
            else ebind (modifyAsset assetID modFields c) (\<lambda>c'. Inr (c', False)))
      | FreezeAsset assetID freezeTarget freezeState \<Rightarrow>
          ebind (getAssetDef assetID c) (\<lambda>asset.
            if freeze asset \<noteq> fromAccount_addr txnParam then Inl (RuntimeError FREEZE_ERROR)
            else ebind (freezeAsset assetID freezeTarget freezeState c) (\<lambda>c'. Inr (c', False)))
      | RevokeAsset recipient assetID revocationTarget amt \<Rightarrow>
          ebind (getAssetDef assetID c) (\<lambda>asset.
            if clawback asset \<noteq> fromAccount_addr txnParam then Inl (RuntimeError CLAWBACK_ERROR)
            else ebind (revokeAsset recipient assetID revocationTarget amt c)
                   (\<lambda>c'. Inr (c', False)))
      | DestroyAsset assetID \<Rightarrow>
          ebind (getAssetDef assetID c) (\<lambda>asset.
            if manager asset \<noteq> fromAccount_addr txnParam then Inl (RuntimeError MANAGER_ERROR)
            else ebind (destroyAsset assetID c) (\<lambda>c'. Inr (c', False)))
      | OtherType \<Rightarrow> Inr (c, False))"

text \<open>
  \<open>Runtime.validateLsigAndRun\<close> as the engine calls it: a thrown error propagates.
  While the stateless program runs the current transaction is the one at the index;
  afterwards it is the first of the group again.
\<close>

definition runLsig :: "Externals \<Rightarrow> ExecParams \<Rightarrow> nat \<Rightarrow> Ctx \<Rightarrow> error + Ctx" where
  "runLsig ext txnParam idx c =
     (if sign txnParam = LogicSignature then
        ebind (throwing (validateLsigAndRun ext txnParam (c\<lparr>tx := nthOpt (gtxs c) idx\<rparr>)))
          (\<lambda>c'. Inr (c'\<lparr>tx := nthOpt (gtxs c') 0\<rparr>))
      else Inr c)"

text \<open>
  The body of the \<open>forEach\<close> callback for the transaction at index \<open>idx\<close>: the fee, the
  check of the signing parameters, the logic signature, and then the payload.
\<close>

definition processTxn :: "Externals \<Rightarrow> Ctx \<times> bool \<Rightarrow> ExecParams \<Rightarrow> nat \<Rightarrow> error + (Ctx \<times> bool)" where
  "processTxn ext cb txnParam idx =
     ebind (deductFee (fromAccount_addr txnParam) idx (fst cb)) (\<lambda>c1.
     ebind (assertAmbiguousTxnParams txnParam) (\<lambda>_.
     ebind (runLsig ext txnParam idx c1) (\<lambda>c2.
     ebind (runPayload ext txnParam c2) (\<lambda>(c3, flag). Inr (c3, snd cb \<or> flag)))))"

text \<open>\<open>txnParams.forEach\<close>, from index \<open>idx\<close> on.\<close>

fun processFrom :: "Externals \<Rightarrow> nat \<Rightarrow> Ctx \<times> bool \<Rightarrow> ExecParams list \<Rightarrow> error + (Ctx \<times> bool)" where
  "processFrom ext idx cb [] = Inr cb"
| "processFrom ext idx cb (txnParam # rest) =
     ebind (processTxn ext cb txnParam idx) (\<lambda>cb'. processFrom ext (Suc idx) cb' rest)"

definition processTransactions :: "Externals \<Rightarrow> ExecParams list \<Rightarrow> Ctx \<Rightarrow> error + (Ctx \<times> bool)" where
  "processTransactions ext txnParams c =
     ebind (processFrom ext 0 (c, False) txnParams) (\<lambda>(c', clearErrorBool).
       if clearErrorBool then Inr (c', True) else Inr (c', False))"

section \<open>Application state opcodes: \<open>app_local_get_ex\<close> and \<open>app_global_get_ex\<close>\<close>

text \<open>
  Modelled from the spec: \<open>interpreter/interpreter.ts\<close> is absent. Account index 0 is
  the sender of the current transaction, indices \<open>1..N\<close> are the entries of its
  \<open>Accounts\<close> array, and an index outside the array fails (as \<open>Runtime.getAccount\<close> of
  the older \<open>algorand-js\<close> package does). The global state of an application is read from
  the application as \<open>Ctx.getApp\<close> finds it. Reading a field of an \<open>undefined\<close>
  transaction or array is a JavaScript \<open>TypeError\<close>.
\<close>

definition interp_getAccount :: "Ctx \<Rightarrow> int \<Rightarrow> error + StoreAccount" where
  "interp_getAccount c accountIndex =
     (case tx c of
        None \<Rightarrow> Inl (JsError ''TypeError'')
      | Some t \<Rightarrow>
          if accountIndex = 0 then assertAccountDefined (accounts (state c) (snd_addr t))
          else
            (let accIndex = accountIndex - 1 in
             case apat t of
               None \<Rightarrow> Inl (JsError ''TypeError'')
             | Some arr \<Rightarrow>
                 ebind (checkIndexBound accIndex arr) (\<lambda>_.
                   assertAccountDefined (accounts (state c) (arr ! nat accIndex)))))"

definition interp_getGlobalState :: "Ctx \<Rightarrow> int option \<Rightarrow> byte list \<Rightarrow> error + StackElem option" where
  "interp_getGlobalState c appId key =
     ebind (getApp appId c) (\<lambda>app. Inr (global_state app key))"

text \<open>
  \<open>if (val)\<close> on a \<open>StackElem | undefined\<close>: \<open>undefined\<close> and the bigint \<open>0n\<close> are
  falsy; every other bigint and every \<open>Uint8Array\<close> (also the empty one) is truthy.
\<close>

fun truthy :: "StackElem option \<Rightarrow> bool" where
  "truthy None = False"
| "truthy (Some (Uint64 n)) = (n \<noteq> 0)"
| "truthy (Some (Bytes b)) = True"

text \<open>The two pushes that end both opcodes: the value first, then the flag on top.\<close>

definition pushValueAndFlag :: "StackElem option \<Rightarrow> TEALStack \<Rightarrow> error + TEALStack" where
  "pushValueAndFlag val st =
     (case val of
        Some v \<Rightarrow>
          if truthy (Some v) then
            ebind (push v st) (\<lambda>st'. push (Uint64 1) st')
          else
            ebind (push (Uint64 0) st) (\<lambda>st'. push (Uint64 0) st')
      | None \<Rightarrow>
          ebind (push (Uint64 0) st) (\<lambda>st'. push (Uint64 0) st'))"

definition AppLocalGetEx_execute :: "Ctx \<Rightarrow> TEALStack \<Rightarrow> error + TEALStack" where
  "AppLocalGetEx_execute c stack =
     ebind (assertMinStackLen stack 3) (\<lambda>_.
     ebind (pop stack) (\<lambda>(x, st1).
     ebind (assertBytes x) (\<lambda>key.
     ebind (pop st1) (\<lambda>(y, st2).
     ebind (assertBigInt y) (\<lambda>appID.
     ebind (pop st2) (\<lambda>(z, st3).
     ebind (assertBigInt z) (\<lambda>accountIndex.
     ebind (interp_getAccount c accountIndex) (\<lambda>account.
       pushValueAndFlag (acc_getLocalState appID key account) st3))))))))"

definition AppGlobalGetEx_execute :: "Ctx \<Rightarrow> TEALStack \<Rightarrow> error + TEALStack" where
  "AppGlobalGetEx_execute c stack =
     ebind (assertMinStackLen stack 2) (\<lambda>_.
     ebind (pop stack) (\<lambda>(x, st1).
     ebind (assertBytes x) (\<lambda>key.
     ebind (pop st1) (\<lambda>(y, st2).
     ebind (assertBigInt y) (\<lambda>appIndex.
       case tx c of
         None \<Rightarrow> Inl (JsError ''TypeError'')
       | Some t \<Rightarrow>
           ebind (if appIndex = 0 then Inr (apid t)
                  else (case apfa t of
                          None \<Rightarrow> Inl (JsError ''TypeError'')
                        | Some foreignApps \<Rightarrow>
                            ebind (checkIndexBound (appIndex - 1) foreignApps) (\<lambda>_.
                              Inr (Some (foreignApps ! nat (appIndex - 1)))))) (\<lambda>appID.
           ebind (interp_getGlobalState c appID key) (\<lambda>val.
             pushValueAndFlag val st2)))))))"

section \<open>Class \<open>Runtime\<close>: \<open>executeTx\<close> and \<open>updateFinalState\<close>\<close>

text \<open>
  The \<open>Runtime\<close> whose \<open>executeTx\<close> runs the programs of a group on \<open>ctx\<close> and then
  commits in \<open>updateFinalState\<close>. It keeps the canonical \<open>store\<close>, the context, a
  counter for application ids and the programs of each application (approval, clear).
  A method that throws leaves the object as it was at the throw, so each method returns
  the thrown error, if any, and the runtime it leaves.
\<close>

record Runtime =
  store :: State
  ctx :: Ctx
  appCounter :: nat
  programMap :: "int \<rightharpoonup> string \<times> string"

datatype TxnInput = Single ExecParams | Group "ExecParams list"

fun mkTxns :: "Externals \<Rightarrow> ExecParams list \<Rightarrow> error + Txn list" where
  "mkTxns ext [] = Inr []"
| "mkTxns ext (txnParam # rest) =
     ebind (ext_mkTxn ext txnParam) (\<lambda>encodedTxnObj.
     ebind (mkTxns ext rest) (\<lambda>txns. Inr (encodedTxnObj # txns)))"

definition createTxnContext :: "Externals \<Rightarrow> TxnInput \<Rightarrow> error + (Txn option \<times> Txn list)" where
  "createTxnContext ext txnParams =
     (case txnParams of
        Group ps \<Rightarrow>
          if length ps > 16
          then Inl (JsError ''Maximum size of an atomic transfer group is 16'')
          else ebind (mkTxns ext ps) (\<lambda>txns. Inr (nthOpt txns 0, txns))
      | Single p \<Rightarrow>
          ebind (ext_mkTxn ext p) (\<lambda>encodedTxnObj. Inr (Some encodedTxnObj, [encodedTxnObj])))"

definition rt_getProgram :: "int \<Rightarrow> Runtime \<Rightarrow> error + (string \<times> string)" where
  "rt_getProgram appId rt =
     (case programMap rt appId of
        None \<Rightarrow> Inl (RuntimeError APP_NOT_FOUND)
      | Some res \<Rightarrow> Inr res)"

text \<open>\<open>Runtime.run\<close>: the interpreter works on \<open>this.ctx\<close>.\<close>

definition rt_run :: "Externals \<Rightarrow> string \<Rightarrow> ExecutionMode \<Rightarrow> Runtime \<Rightarrow> error option \<times> Runtime" where
  "rt_run ext program mode rt =
     (case ext_run ext program mode (ctx rt) of (e, c') \<Rightarrow> (e, rt\<lparr>ctx := c'\<rparr>))"

definition rt_validateLsigAndRun :: "Externals \<Rightarrow> ExecParams \<Rightarrow> Runtime \<Rightarrow> error option \<times> Runtime" where
  "rt_validateLsigAndRun ext txnParam rt =
     (case validateLsigAndRun ext txnParam (ctx rt) of (e, c') \<Rightarrow> (e, rt\<lparr>ctx := c'\<rparr>))"

text \<open>Running the approval (\<open>[0]\<close>) or the clear (\<open>[1]\<close>) program stored for an application.\<close>

definition rt_runStored :: "Externals \<Rightarrow> bool \<Rightarrow> int \<Rightarrow> Runtime \<Rightarrow> error option \<times> Runtime" where
  "rt_runStored ext clear appId rt =
     (case rt_getProgram appId rt of
        Inl e \<Rightarrow> (Some e, rt)
      | Inr (approvalProgram, clearProgram) \<Rightarrow>
          rt_run ext (if clear then clearProgram else approvalProgram) STATEFUL rt)"

text \<open>One iteration of the \<open>for\<close> loop of \<open>executeTx\<close>.\<close>

definition runProgramOf :: "Externals \<Rightarrow> ExecParams \<Rightarrow> Runtime \<Rightarrow> error option \<times> Runtime" where
  "runProgramOf ext txnParam rt =
     (case assertAmbiguousTxnParams txnParam of
        Inl e \<Rightarrow> (Some e, rt)
      | Inr _ \<Rightarrow>
          (case (if sign txnParam = LogicSignature then rt_validateLsigAndRun ext txnParam rt
                 else (None, rt)) of
             (Some e, rt1) \<Rightarrow> (Some e, rt1)
           | (None, rt1) \<Rightarrow>
               (case body txnParam of
                  CallNoOpSSC appId \<Rightarrow> rt_runStored ext False appId rt1
                | CloseSSC appId \<Rightarrow> rt_runStored ext False appId rt1
                | DeleteSSC appId \<Rightarrow> rt_runStored ext False appId rt1
                | ClearSSC appId \<Rightarrow> rt_runStored ext True appId rt1
                | _ \<Rightarrow> (None, rt1))))"

fun runPrograms :: "Externals \<Rightarrow> ExecParams list \<Rightarrow> Runtime \<Rightarrow> error option \<times> Runtime" where
  "runPrograms ext [] rt = (None, rt)"
| "runPrograms ext (txnParam # rest) rt =
     (case runProgramOf ext txnParam rt of
        (Some e, rt') \<Rightarrow> (Some e, rt')
      | (None, rt') \<Rightarrow> runPrograms ext rest rt')"

text \<open>\<open>Runtime.transferAlgo\<close>, on the store: both accounts must exist; no balance check.\<close>

definition rt_transferAlgo :: "AccountAddress \<Rightarrow> AccountAddress \<Rightarrow> int \<Rightarrow> State \<Rightarrow> error + State" where
  "rt_transferAlgo from to amountMicroAlgos s =
     ebind (assertAccountDefined (accounts s from)) (\<lambda>fromAccount.
     ebind (assertAccountDefined (accounts s to)) (\<lambda>toAccount.
       let s1 = s\<lparr>accounts := (accounts s)(from \<mapsto>
                  fromAccount\<lparr>amount := amount fromAccount - amountMicroAlgos\<rparr>)\<rparr>
       in (case accounts s1 to of
             None \<Rightarrow> Inr s1
           | Some toAcc \<Rightarrow>
               Inr (s1\<lparr>accounts := (accounts s1)(to \<mapsto>
                      toAcc\<lparr>amount := amount toAcc + amountMicroAlgos\<rparr>)\<rparr>))))"

text \<open>\<open>Runtime.deleteApp\<close>, on the store and the program map.\<close>

definition rt_deleteApp ::
  "int \<Rightarrow> State \<times> (int \<rightharpoonup> string \<times> string) \<Rightarrow> error + (State \<times> (int \<rightharpoonup> string \<times> string))" where
  "rt_deleteApp appId sp =
     (case globalApps (fst sp) appId of
        None \<Rightarrow> Inl (RuntimeError APP_NOT_FOUND)
      | Some accountAddr \<Rightarrow>
          ebind (assertAccountDefined (accounts (fst sp) accountAddr)) (\<lambda>account.
            Inr ((fst sp)\<lparr>accounts := (accounts (fst sp))(accountAddr \<mapsto> acc_deleteApp appId account),
                          globalApps := (globalApps (fst sp))(appId := None)\<rparr>,
                 (snd sp)(appId := None))))"

text \<open>
  The loop of \<open>updateFinalState\<close>, on the store (which by then is the state of the
  context) and the program map. An error stops the loop and leaves what the earlier
  iterations wrote.
\<close>

fun applyFinal ::
  "ExecParams list \<Rightarrow> State \<times> (int \<rightharpoonup> string \<times> string)
     \<Rightarrow> error option \<times> (State \<times> (int \<rightharpoonup> string \<times> string))" where
  "applyFinal [] sp = (None, sp)"
| "applyFinal (txnParam # rest) sp =
     (case body txnParam of
        TransferAlgo toAccountAddr amountMicroAlgos \<Rightarrow>
          (case rt_transferAlgo (fromAccount_addr txnParam) toAccountAddr amountMicroAlgos (fst sp) of
             Inl e \<Rightarrow> (Some e, sp)
           | Inr s' \<Rightarrow> applyFinal rest (s', snd sp))
      | DeleteSSC appId \<Rightarrow>
          (case rt_deleteApp appId sp of
             Inl e \<Rightarrow> (Some e, sp)
           | Inr sp' \<Rightarrow> applyFinal rest sp')
      | _ \<Rightarrow> applyFinal rest sp)"

text \<open>
  \<open>Runtime.updateFinalState\<close>: first \<open>this.store = this.ctx.state\<close>, then the loop. From
  the assignment on the store and the state of the context are one object, so both show
  what the loop wrote.
\<close>

definition updateFinalState :: "ExecParams list \<Rightarrow> Runtime \<Rightarrow> error option \<times> Runtime" where
  "updateFinalState txnParams rt =
     (case applyFinal txnParams (state (ctx rt), programMap rt) of
        (e, (s, pm)) \<Rightarrow> (e, rt\<lparr>store := s, ctx := (ctx rt)\<lparr>state := s\<rparr>, programMap := pm\<rparr>))"

text \<open>
  \<open>Runtime.executeTx\<close>: the context gets a deep copy of the store (a copy of a value is
  the value), the programs of the group run on the context, and if none throws the
  final state is written.
\<close>

definition executeTx ::
  "Externals \<Rightarrow> TxnInput \<Rightarrow> byte list list option \<Rightarrow> Runtime \<Rightarrow> error option \<times> Runtime" where
  "executeTx ext txnParams args' rt =
     (case createTxnContext ext txnParams of
        Inl e \<Rightarrow> (Some e, rt)
      | Inr (tx', gtxs') \<Rightarrow>
          (let rt1 = rt\<lparr>ctx := \<lparr>state = store rt, tx = tx', gtxs = gtxs',
                                 args = (case args' of None \<Rightarrow> [] | Some a \<Rightarrow> a)\<rparr>\<rparr>;
               txnParameters = (case txnParams of Single p \<Rightarrow> [p] | Group ps \<Rightarrow> ps)
           in (case runPrograms ext txnParameters rt1 of
                 (Some e, rt2) \<Rightarrow> (Some e, rt2)
               | (None, rt2) \<Rightarrow> updateFinalState txnParameters rt2)))"

section \<open>Observations and sample inputs\<close>

text \<open>The sum of the micro-algo balances over all accounts of a context.\<close>

definition totalAlgo :: "Ctx \<Rightarrow> int" where
  "totalAlgo c = (\<Sum>k \<in> dom (accounts (state c)). amountOf k c)"


text \<open>The balance that \<open>Runtime.getAccount\<close> shows for an address of the store.\<close>

definition storeBalance :: "Runtime \<Rightarrow> AccountAddress \<Rightarrow> int option" where
  "storeBalance rt addr = map_option amount (accounts (store rt) addr)"

text \<open>A fresh account, as \<open>new StoreAccount(balance)\<close> makes it.\<close>

definition plainAccount :: "AccountAddress \<Rightarrow> int \<Rightarrow> int \<Rightarrow> StoreAccount" where
  "plainAccount addr bal minBal =
     \<lparr>address = addr, amount = bal, minBalance = minBal, assets = Map.empty,
      appsLocalState = Map.empty, createdApps = Map.empty, createdAssets = Map.empty\<rparr>"

definition plainTxn :: "AccountAddress \<Rightarrow> int \<Rightarrow> Txn" where
  "plainTxn sender f = \<lparr>fee = f, snd_addr = sender, apid = None, apfa = None, apat = None\<rparr>"

definition algoTransfer :: "AccountAddress \<Rightarrow> AccountAddress \<Rightarrow> int \<Rightarrow> ExecParams" where
  "algoTransfer from to amt =
     \<lparr>body = TransferAlgo to amt, sign = SecretKey, fromAccount_addr = from, lsig = None,
      payFlags = \<lparr>totalFee = Some 1000, closeRemainderTo = None\<rparr>\<rparr>"

text \<open>
  A stand-in for the absent parts, for the sample inputs: the program \<open>int 0\<close> is
  rejected by logic, the program \<open>err\<close> fails with another fatal error, every other
  program is accepted, and none of them writes state; every signature verifies; every
  encoded transaction carries the fee 1000.
\<close>

definition sampleExt :: Externals where
  "sampleExt =
     \<lparr>ext_run = (\<lambda>program mode c.
         if program = ''int 0'' then (Some (RuntimeError REJECTED_BY_LOGIC), c)
         else if program = ''err'' then (Some (RuntimeError TEAL_ENCOUNTERED_ERR), c)
         else (None, c)),
      ext_verify = (\<lambda>l addr. True),
      ext_mkTxn = (\<lambda>p. Inr (plainTxn (fromAccount_addr p) 1000))\<rparr>"

definition threeAccounts :: State where
  "threeAccounts =
     \<lparr>accounts = [''alice'' \<mapsto> plainAccount ''alice'' 10000 1000,
                  ''bob'' \<mapsto> plainAccount ''bob'' 1000 1000,
                  ''carol'' \<mapsto> plainAccount ''carol'' 7000 1000],
      globalApps = Map.empty, assetDefs = Map.empty\<rparr>"

definition sampleCtx :: Ctx where
  "sampleCtx =
     \<lparr>state = threeAccounts, tx = Some (plainTxn ''alice'' 1000),
      gtxs = [plainTxn ''alice'' 1000, plainTxn ''bob'' 1000], args = []\<rparr>"

definition sampleRuntime :: Runtime where
  "sampleRuntime =
     \<lparr>store = threeAccounts,
      ctx = \<lparr>state = threeAccounts, tx = None, gtxs = [], args = []\<rparr>,
      appCounter = 0, programMap = Map.empty\<rparr>"

text \<open>
  An application 7 whose clear program is \<open>int 0\<close> and an application 8 whose clear
  program is \<open>err\<close>, both created by alice, with two global keys; bob has opted in to
  both and holds one local key for application 7.
\<close>

definition appAttrs :: "string \<Rightarrow> SSCAttributesM" where
  "appAttrs clearProgram =
     \<lparr>approval_program = ''int 1'', clear_state_program = clearProgram, app_creator = ''alice'',
      global_state = [[3] \<mapsto> Uint64 0, [4] \<mapsto> Bytes [5]],
      global_state_schema = \<lparr>num_byte_slice = 1, num_uint = 1\<rparr>,
      local_state_schema = \<lparr>num_byte_slice = 1, num_uint = 1\<rparr>\<rparr>"

definition appState :: State where
  "appState =
     \<lparr>accounts =
        [''alice'' \<mapsto> (plainAccount ''alice'' 10000 1000)
            \<lparr>createdApps := [7 \<mapsto> appAttrs ''int 0'', 8 \<mapsto> appAttrs ''err'']\<rparr>,
         ''bob'' \<mapsto> (plainAccount ''bob'' 5000 1000)
            \<lparr>appsLocalState :=
               [7 \<mapsto> \<lparr>key_value = [[1] \<mapsto> Bytes [2]], schema = \<lparr>num_byte_slice = 1, num_uint = 1\<rparr>\<rparr>,
                8 \<mapsto> \<lparr>key_value = Map.empty, schema = \<lparr>num_byte_slice = 1, num_uint = 1\<rparr>\<rparr>]\<rparr>],
      globalApps = [7 \<mapsto> ''alice'', 8 \<mapsto> ''alice''], assetDefs = Map.empty\<rparr>"

definition appTxn :: Txn where
  "appTxn = \<lparr>fee = 1000, snd_addr = ''bob'', apid = Some 7, apfa = Some [8], apat = Some [''alice'']\<rparr>"

definition appCtx :: Ctx where
  "appCtx = \<lparr>state = appState, tx = Some appTxn, gtxs = [appTxn], args = []\<rparr>"

definition clearCall :: "AccountAddress \<Rightarrow> int \<Rightarrow> ExecParams" where
  "clearCall from appId =
     \<lparr>body = ClearSSC appId, sign = SecretKey, fromAccount_addr = from, lsig = None,
      payFlags = \<lparr>totalFee = Some 1000, closeRemainderTo = None\<rparr>\<rparr>"

text \<open>
  A context in which bob holds \<open>2^53 - 1\<close> micro-algos, the largest safe integer, and
  alice 10000.
\<close>

definition richCtx :: Ctx where
  "richCtx =
     \<lparr>state = \<lparr>accounts = [''alice'' \<mapsto> plainAccount ''alice'' 10000 1000,
                              ''bob'' \<mapsto> plainAccount ''bob'' (2 ^ 53 - 1) 1000],
                 globalApps = Map.empty, assetDefs = Map.empty\<rparr>,
      tx = Some (plainTxn ''alice'' 1000), gtxs = [plainTxn ''alice'' 1000], args = []\<rparr>"

text \<open>
  All balances of a context are safe integers; and every balance of a context, decreased
  or increased by an amount, is a safe integer.
\<close>

definition safeBalances :: "Ctx \<Rightarrow> bool" where
  "safeBalances c = (\<forall>k \<in> dom (accounts (state c)). safeInteger (amountOf k c))"

definition safeWithAmount :: "int \<Rightarrow> Ctx \<Rightarrow> bool" where
  "safeWithAmount amt c =
     (\<forall>k \<in> dom (accounts (state c)).
        safeInteger (amountOf k c - amt) \<and> safeInteger (amountOf k c + amt))"

section \<open>The two readings of the \<open>_ex\<close> opcodes\<close>

text \<open>
  What the code leaves after an \<open>_ex\<close> opcode that read \<open>stored\<close> on a stack whose rest
  is \<open>st\<close>: the flag, 0 or 1, on top and the value directly below it; the value is
  \<open>Uint64 0\<close> when the flag is 0; the flag is 0 when the key does not exist; the flag
  is 1 and the value is the stored one when the key exists with a value other than
  \<open>Uint64 0\<close>.
\<close>

fun valueThenFlag :: "StackElem option \<Rightarrow> TEALStack \<Rightarrow> error + TEALStack \<Rightarrow> bool" where
  "valueThenFlag stored st (Inr (Uint64 flag # v # st')) =
     (st' = st \<and> (flag = 0 \<or> flag = 1) \<and> (flag = 0 \<longrightarrow> v = Uint64 0)
      \<and> (stored = None \<longrightarrow> flag = 0)
      \<and> (case stored of None \<Rightarrow> True | Some x \<Rightarrow> x \<noteq> Uint64 0 \<longrightarrow> flag = 1 \<and> v = x))"
| "valueThenFlag stored st r = False"

text \<open>
  The same result read as the specification words it: the flag below the value, and the
  flag 1 exactly when the key exists.
\<close>

fun flagBelowValue :: "StackElem option \<Rightarrow> TEALStack \<Rightarrow> error + TEALStack \<Rightarrow> bool" where
  "flagBelowValue stored st (Inr (v # Uint64 flag # st')) =
     (st' = st \<and> (flag = 0 \<or> flag = 1) \<and> (flag = 1 \<longleftrightarrow> stored \<noteq> None)
      \<and> (flag = 0 \<longrightarrow> v = Uint64 0))"
| "flagBelowValue stored st r = False"

section \<open>Properties\<close>

subsection \<open>Rounding of numbers\<close>

lemma doubleUlp_small: "n < 2 ^ 53 \<Longrightarrow> doubleUlp n = 1"
  by (subst doubleUlp.simps) simp

lemma doubleUlp_step: "2 ^ 53 \<le> n \<Longrightarrow> doubleUlp n = 2 * doubleUlp (n div 2)"
  by (subst doubleUlp.simps) simp

lemma doubleUlp_large: "2 ^ 53 \<le> n \<Longrightarrow> 2 \<le> doubleUlp n \<and> 2 ^ 52 * doubleUlp n \<le> n"
proof (induction n rule: doubleUlp.induct)
  case (1 n)
  from "1.prems" have u: "doubleUlp n = 2 * doubleUlp (n div 2)"
    by (subst doubleUlp.simps) simp
  show ?case
  proof (cases "n div 2 < 2 ^ 53")
    case True
    then have "doubleUlp (n div 2) = 1" by (rule doubleUlp_small)
    with u "1.prems" show ?thesis by simp
  next
    case False
    with "1.IH" "1.prems" have "2 \<le> doubleUlp (n div 2) \<and> 2 ^ 52 * doubleUlp (n div 2) \<le> n div 2"
      by simp
    with u show ?thesis by auto
  qed
qed

lemma roundMagnitude_small: "0 \<le> n \<Longrightarrow> n < 2 ^ 53 \<Longrightarrow> roundMagnitude n = n"
  by (simp add: roundMagnitude_def doubleUlp_small Let_def)

lemma roundMagnitude_large:
  assumes "2 ^ 53 \<le> n"
  shows "2 ^ 53 \<le> roundMagnitude n"
proof -
  let ?u = "doubleUlp n"
  from doubleUlp_large [OF assms] have u2: "2 \<le> ?u" and le: "2 ^ 52 * ?u \<le> n" by simp_all
  from u2 have upos: "0 < ?u" by simp
  have "2 ^ 52 = (2 ^ 52 * ?u) div ?u" using upos by simp
  also have "\<dots> \<le> n div ?u" using le upos by (intro zdiv_mono1) simp_all
  finally have q: "2 ^ 52 \<le> n div ?u" .
  have "(2::int) ^ 53 = 2 ^ 52 * 2" by simp
  also have "\<dots> \<le> (n div ?u) * ?u" using q u2 by (intro mult_mono) simp_all
  finally have base: "2 ^ 53 \<le> (n div ?u) * ?u" .
  have "(n div ?u) * ?u \<le> (n div ?u + 1) * ?u" using upos by (simp add: algebra_simps)
  with base show ?thesis
    by (simp add: roundMagnitude_def Let_def)
qed

lemma jsNumber_exact: "safeInteger x \<Longrightarrow> jsNumber x = x"
  by (simp add: jsNumber_def safeInteger_def roundMagnitude_small)

lemma jsNumber_safe_exact:
  assumes "safeInteger (jsNumber x)"
  shows "jsNumber x = x"
proof (cases "safeInteger x")
  case True
  then show ?thesis by (rule jsNumber_exact)
next
  case False
  then have "2 ^ 53 \<le> x \<or> 2 ^ 53 \<le> - x" by (auto simp add: safeInteger_def)
  then have "2 ^ 53 \<le> jsNumber x \<or> jsNumber x \<le> - (2 ^ 53)"
    using roundMagnitude_large [of x] roundMagnitude_large [of "- x"]
    by (auto simp add: jsNumber_def)
  with assms show ?thesis by (simp add: safeInteger_def)
qed

lemmas sample_defs = sampleExt_def sampleCtx_def threeAccounts_def plainAccount_def plainTxn_def
  algoTransfer_def appAttrs_def appState_def appTxn_def appCtx_def clearCall_def richCtx_def

lemmas engine_defs = processTransactions_def processTxn_def deductFee_def
  getAccount_def assertAccountDefined_def assertMinBalance_def updAccount_def
  assertAmbiguousTxnParams_def runLsig_def runPayload_def transferAlgo_def amountOf_def
  getApp_def assertAppDefined_def closeApp_def acc_closeApp_def jsNumber_exact safeInteger_def

lemmas opcode_defs = AppLocalGetEx_execute_def AppGlobalGetEx_execute_def interp_getAccount_def
  interp_getGlobalState_def acc_getLocalState_def pushValueAndFlag_def push_def
  assertMinStackLen_def checkIndexBound_def MAX_STACK_DEPTH_def

lemmas runtime_defs = executeTx_def createTxnContext_def nthOpt_def runProgramOf_def
  assertAmbiguousTxnParams_def updateFinalState_def rt_transferAlgo_def
  assertAccountDefined_def storeBalance_def sampleRuntime_def

subsection \<open>\<open>addw\<close>\<close>

lemma MAX_UINT64_mask: "MAX_UINT64 = mask 64"
  by (simp add: MAX_UINT64_def mask_eq_exp_minus_1)

text \<open>
  C4. For u64 operands \<open>a\<close> and \<open>b\<close> on top of a stack within its depth bound, \<open>addw\<close>
  leaves the carry and, on top of it, the sum: carry 1 and \<open>(a + b) mod 2^64\<close> when
  \<open>a + b\<close> exceeds \<open>MAX_UINT64\<close>, carry 0 and \<open>a + b\<close> otherwise.
\<close>

theorem addw_carry_and_sum:
  assumes "0 \<le> a" "a \<le> MAX_UINT64" "0 \<le> b" "b \<le> MAX_UINT64"
    and "length (Uint64 a # Uint64 b # st) \<le> MAX_STACK_DEPTH"
  shows "Addw_execute (Uint64 a # Uint64 b # st) =
           (if a + b > MAX_UINT64
            then Inr (Uint64 ((a + b) mod 2 ^ 64) # Uint64 1 # st)
            else Inr (Uint64 (a + b) # Uint64 0 # st))"
proof (cases "a + b > MAX_UINT64")
  case True
  from assms True have lo: "2 ^ 64 \<le> a + b" and hi: "a + b < 2 * 2 ^ 64"
    by (simp_all add: MAX_UINT64_def)
  have "(a + b) mod 2 ^ 64 = (a + b - 2 ^ 64) mod 2 ^ 64"
    by (simp add: mod_diff_right_eq [symmetric])
  also from lo hi have "\<dots> = a + b - 2 ^ 64"
    by (intro mod_pos_pos_trivial) simp_all
  finally have m: "(a + b) mod 2 ^ 64 = a + b - MAX_UINT64 - 1"
    by (simp add: MAX_UINT64_def)
  from assms(5) True show ?thesis
    unfolding m
    by (simp add: Addw_execute_def assertMinStackLen_def push_def Let_def)
next
  case False
  with assms(5) show ?thesis
    by (simp add: Addw_execute_def assertMinStackLen_def push_def Let_def)
qed

theorem addw_carry_and_sum_witness:
  "Addw_execute [Uint64 3, Uint64 (2 ^ 64 - 1)] = Inr [Uint64 2, Uint64 1]"
  using addw_carry_and_sum [of 3 "2 ^ 64 - 1" "[]"]
  by (simp add: MAX_UINT64_def MAX_STACK_DEPTH_def)

subsection \<open>\<open>mulw\<close>\<close>

text \<open>
  C9. For u64 operands \<open>a\<close> and \<open>b\<close> on top of a stack within its depth bound, \<open>mulw\<close>
  never fails: the low word \<open>product & MAX_UINT64\<close> and the high word \<open>product >> 64\<close>
  both pass \<open>checkOverflow\<close>, so neither \<open>UINT64_OVERFLOW\<close> branch is taken, and the
  opcode leaves the high word and, on top of it, the low word.
\<close>

theorem mulw_never_overflows:
  assumes "0 \<le> a" "a \<le> MAX_UINT64" "0 \<le> b" "b \<le> MAX_UINT64"
    and "length (Uint64 a # Uint64 b # st) \<le> MAX_STACK_DEPTH"
  shows "Mulw_execute (Uint64 a # Uint64 b # st) =
           Inr (Uint64 ((a * b) mod 2 ^ 64) # Uint64 ((a * b) div 2 ^ 64) # st)
         \<and> checkOverflow (and (a * b) MAX_UINT64) = Inr ()
         \<and> checkOverflow (drop_bit 64 (a * b)) = Inr ()"
proof -
  have low: "and (a * b) MAX_UINT64 = (a * b) mod 2 ^ 64"
    by (simp add: MAX_UINT64_mask take_bit_eq_mod flip: take_bit_eq_mask)
  have high: "drop_bit 64 (a * b) = (a * b) div 2 ^ 64"
    by (simp add: drop_bit_eq_div)
  have low_le: "(a * b) mod 2 ^ 64 \<le> MAX_UINT64"
    using pos_mod_bound [of "2 ^ 64" "a * b"] by (simp add: MAX_UINT64_def)
  from assms have "a * b \<le> MAX_UINT64 * MAX_UINT64"
    by (intro mult_mono) simp_all
  then have "a * b < 2 ^ 64 * 2 ^ 64" by (simp add: MAX_UINT64_def)
  then have "(a * b) div 2 ^ 64 < 2 ^ 64"
    by (simp add: div_less_iff_less_mult mult.commute)
  then have high_le: "(a * b) div 2 ^ 64 \<le> MAX_UINT64" by (simp add: MAX_UINT64_def)
  from assms(5) low_le high_le show ?thesis
    by (simp add: Mulw_execute_def assertMinStackLen_def push_def Let_def checkOverflow_def
        low high)
qed

theorem mulw_never_overflows_witness:
  "Mulw_execute [Uint64 (2 ^ 64 - 1), Uint64 (2 ^ 64 - 1)] =
     Inr [Uint64 1, Uint64 (2 ^ 64 - 2)]"
  using mulw_never_overflows [of "2 ^ 64 - 1" "2 ^ 64 - 1" "[]"]
  by (simp add: MAX_UINT64_def MAX_STACK_DEPTH_def)

subsection \<open>\<open>itob\<close> and \<open>btoi\<close>\<close>

lemma readBE_append: "readBE (xs @ [b]) = readBE xs * 256 + uint b"
  by (simp add: readBE_def)

lemma readBE_nonneg: "0 \<le> readBE bs"
  by (induction bs rule: rev_induct) (simp_all add: readBE_def)

lemma readBE_writeBE: "0 \<le> n \<Longrightarrow> readBE (writeBE k n) = n mod 256 ^ k"
proof (induction k arbitrary: n)
  case 0
  then show ?case by (simp add: readBE_def)
next
  case (Suc k)
  have u: "uint (word_of_int (n mod 256) :: byte) = n mod 256"
    by (simp add: uint_word_of_int take_bit_eq_mod)
  from Suc.prems have "0 \<le> n div 256" by simp
  with Suc.IH have "readBE (writeBE k (n div 256)) = (n div 256) mod 256 ^ k" by blast
  then have "readBE (writeBE (Suc k) n) = ((n div 256) mod 256 ^ k) * 256 + n mod 256"
    by (simp add: readBE_append u)
  also have "\<dots> = n mod (256 * 256 ^ k)"
    using zmod_zmult2_eq [of "256 ^ k" n 256] by (simp only: mult.commute add.commute) simp
  finally show ?case by simp
qed

lemma writeBE_readBE: "length bs = k \<Longrightarrow> writeBE k (readBE bs) = bs"
proof (induction bs arbitrary: k rule: rev_induct)
  case Nil
  then show ?case by simp
next
  case (snoc b bs)
  then obtain k' where k: "k = Suc k'" and len: "length bs = k'" by (cases k) auto
  have b: "0 \<le> uint b" "uint b < 256" using uint_lt2p [of b] by simp_all
  have d: "(readBE bs * 256 + uint b) div 256 = readBE bs" using b by simp
  have m: "uint b mod 256 = uint b" using b by simp
  show ?case using snoc.IH [OF len] by (simp add: k readBE_append d m)
qed

lemma readBE_bound: "readBE bs < 256 ^ length bs"
proof (induction bs rule: rev_induct)
  case Nil
  then show ?case by (simp add: readBE_def)
next
  case (snoc b bs)
  have b: "uint b < 256" using uint_lt2p [of b] by simp
  from snoc.IH have "readBE bs + 1 \<le> 256 ^ length bs" by simp
  then have "(readBE bs + 1) * 256 \<le> 256 ^ length bs * 256" by (rule mult_right_mono) simp
  with b show ?case by (simp add: readBE_append algebra_simps)
qed

lemma length_writeBE: "length (writeBE k n) = k"
  by (induction k arbitrary: n) simp_all

text \<open>
  C8. \<open>itob\<close> and \<open>btoi\<close> are mutually inverse on their domains: for every u64 \<open>x\<close>,
  running \<open>itob\<close> and then \<open>btoi\<close> on a stack with \<open>x\<close> on top gives the same stack
  back, and for every byte string \<open>s\<close> of length exactly 8, running \<open>btoi\<close> and then
  \<open>itob\<close> on a stack with \<open>s\<close> on top gives the same stack back.
\<close>

theorem itob_btoi_inverse:
  "(0 \<le> x \<and> x \<le> MAX_UINT64 \<and> length (Uint64 x # st) \<le> MAX_STACK_DEPTH \<longrightarrow>
      ebind (Itob_execute (Uint64 x # st)) Btoi_execute = Inr (Uint64 x # st))
   \<and> (length s = 8 \<and> length (Bytes s # st) \<le> MAX_STACK_DEPTH \<longrightarrow>
      ebind (Btoi_execute (Bytes s # st)) Itob_execute = Inr (Bytes s # st))"
proof (intro conjI impI)
  assume h: "0 \<le> x \<and> x \<le> MAX_UINT64 \<and> length (Uint64 x # st) \<le> MAX_STACK_DEPTH"
  then have "x < 2 ^ 64" by (simp add: MAX_UINT64_def)
  with h have r: "readBE (writeBE 8 x) = x"
    by (simp only: readBE_writeBE) simp
  have i: "Itob_execute (Uint64 x # st) = Inr (Bytes (writeBE 8 x) # st)"
    using h by (simp add: Itob_execute_def assertMinStackLen_def encodeUint64_def push_def)
  have "Btoi_execute (Bytes (writeBE 8 x) # st) = Inr (Uint64 x # st)"
    using h by (simp add: Btoi_execute_def assertMinStackLen_def decodeUint64_def push_def
        length_writeBE r del: writeBE.simps)
  with i show "ebind (Itob_execute (Uint64 x # st)) Btoi_execute = Inr (Uint64 x # st)"
    by simp
next
  assume h: "length s = 8 \<and> length (Bytes s # st) \<le> MAX_STACK_DEPTH"
  have "readBE s < 256 ^ 8" using readBE_bound [of s] h by simp
  then have le: "readBE s \<le> MAX_UINT64" by (simp add: MAX_UINT64_def)
  have w: "writeBE 8 (readBE s) = s" using h by (simp only: writeBE_readBE)
  have b: "Btoi_execute (Bytes s # st) = Inr (Uint64 (readBE s) # st)"
    using h by (simp add: Btoi_execute_def assertMinStackLen_def decodeUint64_def push_def)
  have "Itob_execute (Uint64 (readBE s) # st) = Inr (Bytes s # st)"
    using h le readBE_nonneg [of s]
    by (simp add: Itob_execute_def assertMinStackLen_def encodeUint64_def push_def w
        del: writeBE.simps)
  with b show "ebind (Btoi_execute (Bytes s # st)) Itob_execute = Inr (Bytes s # st)"
    by simp
qed

theorem itob_btoi_inverse_witness:
  "ebind (Itob_execute [Uint64 4]) Btoi_execute = Inr [Uint64 4]
   \<and> ebind (Btoi_execute [Bytes [0, 0, 0, 0, 0, 0, 1, 2]]) Itob_execute =
       Inr [Bytes [0, 0, 0, 0, 0, 0, 1, 2]]"
  using itob_btoi_inverse [of 4 "[]" "[0, 0, 0, 0, 0, 0, 1, 2]"]
  by (simp add: MAX_UINT64_def MAX_STACK_DEPTH_def)

subsection \<open>\<open>substring\<close>\<close>

lemma slice_in_range:
  "0 \<le> a \<Longrightarrow> a \<le> b \<Longrightarrow> b \<le> int (length s) \<Longrightarrow>
     slice s a b = take (nat (b - a)) (drop (nat a) s)"
  by (simp add: slice_def Let_def min_def max_def)

lemma subString_cases:
  "0 \<le> a \<Longrightarrow> 0 \<le> b \<Longrightarrow> subString a b s =
     (if a > b then Inl (RuntimeError SUBSTRING_END_BEFORE_START)
      else if b > int (length s) then Inl (RuntimeError SUBSTRING_RANGE_BEYOND)
      else Inr (take (nat (b - a)) (drop (nat a) s)))"
  by (auto simp add: subString_def slice_in_range)

text \<open>
  C7. For every byte string \<open>s\<close> and indices \<open>a\<close> and \<open>b\<close>, \<open>substring(s, a, b)\<close> fails
  with \<open>SUBSTRING_END_BEFORE_START\<close> when \<open>a > b\<close>, fails with
  \<open>SUBSTRING_RANGE_BEYOND\<close> when \<open>a \<le> b\<close> and \<open>b > len(s)\<close>, and otherwise gives the bytes
  of \<open>s\<close> from index \<open>a\<close> up to but not including \<open>b\<close>. This holds of \<open>Op.subString\<close>,
  of \<open>substring3\<close> for u64 indices taken from the stack, and of \<open>substring\<close> for its
  uint8 immediates.
\<close>

theorem substring_contract:
  assumes "0 \<le> a" "0 \<le> b"
    and "length (Bytes s # Uint64 b # Uint64 a # st) \<le> MAX_STACK_DEPTH"
  shows "subString a b s =
           (if a > b then Inl (RuntimeError SUBSTRING_END_BEFORE_START)
            else if b > int (length s) then Inl (RuntimeError SUBSTRING_RANGE_BEYOND)
            else Inr (take (nat (b - a)) (drop (nat a) s)))
       \<and> Substring3_execute (Bytes s # Uint64 b # Uint64 a # st) =
           (if a > b then Inl (RuntimeError SUBSTRING_END_BEFORE_START)
            else if b > int (length s) then Inl (RuntimeError SUBSTRING_RANGE_BEYOND)
            else Inr (Bytes (take (nat (b - a)) (drop (nat a) s)) # st))
       \<and> (a \<le> MAX_UINT8 \<and> b \<le> MAX_UINT8 \<longrightarrow>
          Substring_execute a b (Bytes s # st) =
           (if a > b then Inl (RuntimeError SUBSTRING_END_BEFORE_START)
            else if b > int (length s) then Inl (RuntimeError SUBSTRING_RANGE_BEYOND)
            else Inr (Bytes (take (nat (b - a)) (drop (nat a) s)) # st)))"
proof (intro conjI impI)
  show "subString a b s =
           (if a > b then Inl (RuntimeError SUBSTRING_END_BEFORE_START)
            else if b > int (length s) then Inl (RuntimeError SUBSTRING_RANGE_BEYOND)
            else Inr (take (nat (b - a)) (drop (nat a) s)))"
    using assms(1,2) by (rule subString_cases)
next
  show "Substring3_execute (Bytes s # Uint64 b # Uint64 a # st) =
           (if a > b then Inl (RuntimeError SUBSTRING_END_BEFORE_START)
            else if b > int (length s) then Inl (RuntimeError SUBSTRING_RANGE_BEYOND)
            else Inr (Bytes (take (nat (b - a)) (drop (nat a) s)) # st))"
    using assms(3) by (simp add: Substring3_execute_def subString_cases [OF assms(1,2)] push_def)
next
  assume "a \<le> MAX_UINT8 \<and> b \<le> MAX_UINT8"
  then show "Substring_execute a b (Bytes s # st) =
           (if a > b then Inl (RuntimeError SUBSTRING_END_BEFORE_START)
            else if b > int (length s) then Inl (RuntimeError SUBSTRING_RANGE_BEYOND)
            else Inr (Bytes (take (nat (b - a)) (drop (nat a) s)) # st))"
    using assms
    by (simp add: Substring_execute_def assertUint8_def MIN_UINT8_def
        subString_cases [OF assms(1,2)] push_def)
qed

theorem substring_contract_witness:
  "Substring3_execute [Bytes [1, 2, 3, 4, 5], Uint64 4, Uint64 1] = Inr [Bytes [2, 3, 4]]
   \<and> Substring_execute 1 9 [Bytes [1, 2, 3, 4, 5]] = Inl (RuntimeError SUBSTRING_RANGE_BEYOND)
   \<and> Substring_execute 4 1 [Bytes [1, 2, 3, 4, 5]] =
       Inl (RuntimeError SUBSTRING_END_BEFORE_START)"
  using substring_contract [of 1 4 "[1, 2, 3, 4, 5]" "[]"]
    substring_contract [of 1 9 "[1, 2, 3, 4, 5]" "[]"]
    substring_contract [of 4 1 "[1, 2, 3, 4, 5]" "[]"]
  by (simp add: MAX_UINT8_def MAX_STACK_DEPTH_def)

subsection \<open>The verdict of a run\<close>

lemma finalVerdict_cases:
  "finalVerdict stack =
     (if (\<exists>n. stack = [Uint64 n] \<and> n \<noteq> 0 \<and> 0 \<le> n \<and> n \<le> MAX_UINT64) then Inr ()
      else Inl (RuntimeError REJECTED_BY_LOGIC))"
proof (cases stack)
  case Nil
  then show ?thesis by (simp add: finalVerdict_def)
next
  case (Cons v rest)
  then show ?thesis
    by (cases v; cases rest) (auto simp add: finalVerdict_def isUint64_def MIN_UINT64_def)
qed

lemma Return_execute_nonempty: "Return_execute n (v # st) = Inr ([v], n)"
proof -
  have "popAll st = []" by (induction st) simp_all
  then show ?thesis
    by (simp add: Return_execute_def assertMinStackLen_def push_def MAX_STACK_DEPTH_def)
qed

text \<open>
  C3. A run that terminates without a fatal error is accepted if and only if the final
  stack contains exactly one value and that value is a non-zero u64, a bigint other than
  0 from 0 to \<open>MAX_UINT64\<close>; a final stack of any other size, a zero, a byte string, and
  also a bigint that is no u64 are rejected with \<open>REJECTED_BY_LOGIC\<close>. \<open>return\<close> on a
  stack with top value \<open>v\<close> leaves \<open>v\<close> alone on the stack and the instruction index at
  the number of instructions, so the run ends there and is accepted exactly when \<open>v\<close> is
  a non-zero u64.
\<close>

theorem verdict_single_nonzero_u64:
  "finalVerdict stack =
     (if (\<exists>n. stack = [Uint64 n] \<and> n \<noteq> 0 \<and> 0 \<le> n \<and> n \<le> MAX_UINT64) then Inr ()
      else Inl (RuntimeError REJECTED_BY_LOGIC))
   \<and> (length stack \<noteq> 1 \<longrightarrow> finalVerdict stack = Inl (RuntimeError REJECTED_BY_LOGIC))
   \<and> finalVerdict [Uint64 0] = Inl (RuntimeError REJECTED_BY_LOGIC)
   \<and> finalVerdict [Bytes b] = Inl (RuntimeError REJECTED_BY_LOGIC)
   \<and> (k < 0 \<or> MAX_UINT64 < k \<longrightarrow> finalVerdict [Uint64 k] = Inl (RuntimeError REJECTED_BY_LOGIC))
   \<and> Return_execute len (v # st) = Inr ([v], len)
   \<and> ebind (Return_execute len (v # st)) (\<lambda>(stack', idx). finalVerdict stack') =
     (if (\<exists>n. v = Uint64 n \<and> n \<noteq> 0 \<and> 0 \<le> n \<and> n \<le> MAX_UINT64) then Inr ()
      else Inl (RuntimeError REJECTED_BY_LOGIC))"
proof (intro conjI impI)
  show "finalVerdict stack =
     (if (\<exists>n. stack = [Uint64 n] \<and> n \<noteq> 0 \<and> 0 \<le> n \<and> n \<le> MAX_UINT64) then Inr ()
      else Inl (RuntimeError REJECTED_BY_LOGIC))"
    by (rule finalVerdict_cases)
  show "finalVerdict [Uint64 0] = Inl (RuntimeError REJECTED_BY_LOGIC)"
    by (simp add: finalVerdict_cases)
  show "finalVerdict [Bytes b] = Inl (RuntimeError REJECTED_BY_LOGIC)"
    by (simp add: finalVerdict_cases)
  show "Return_execute len (v # st) = Inr ([v], len)"
    by (rule Return_execute_nonempty)
  show "ebind (Return_execute len (v # st)) (\<lambda>(stack', idx). finalVerdict stack') =
     (if (\<exists>n. v = Uint64 n \<and> n \<noteq> 0 \<and> 0 \<le> n \<and> n \<le> MAX_UINT64) then Inr ()
      else Inl (RuntimeError REJECTED_BY_LOGIC))"
    by (simp add: Return_execute_nonempty finalVerdict_cases)
next
  assume "length stack \<noteq> 1"
  then have "\<not> (\<exists>n. stack = [Uint64 n] \<and> n \<noteq> 0 \<and> 0 \<le> n \<and> n \<le> MAX_UINT64)" by auto
  then show "finalVerdict stack = Inl (RuntimeError REJECTED_BY_LOGIC)"
    by (simp only: finalVerdict_cases if_False)
next
  assume "k < 0 \<or> MAX_UINT64 < k"
  then show "finalVerdict [Uint64 k] = Inl (RuntimeError REJECTED_BY_LOGIC)"
    by (auto simp add: finalVerdict_cases)
qed

theorem verdict_single_nonzero_u64_witness:
  "finalVerdict [Uint64 5] = Inr ()
   \<and> finalVerdict [Uint64 (2 ^ 64 - 1)] = Inr ()
   \<and> finalVerdict [Uint64 0] = Inl (RuntimeError REJECTED_BY_LOGIC)
   \<and> finalVerdict [Uint64 (- 1)] = Inl (RuntimeError REJECTED_BY_LOGIC)
   \<and> finalVerdict [Uint64 (2 ^ 64)] = Inl (RuntimeError REJECTED_BY_LOGIC)
   \<and> finalVerdict [Bytes [1]] = Inl (RuntimeError REJECTED_BY_LOGIC)
   \<and> finalVerdict [Uint64 1, Uint64 1] = Inl (RuntimeError REJECTED_BY_LOGIC)
   \<and> finalVerdict [] = Inl (RuntimeError REJECTED_BY_LOGIC)
   \<and> Return_execute 3 [Uint64 7, Bytes [], Uint64 0] = Inr ([Uint64 7], 3)
   \<and> ebind (Return_execute 3 [Uint64 7, Bytes [], Uint64 0]) (\<lambda>(stack', idx). finalVerdict stack')
       = Inr ()
   \<and> ebind (Return_execute 3 [Uint64 (- 1), Uint64 1]) (\<lambda>(stack', idx). finalVerdict stack')
       = Inl (RuntimeError REJECTED_BY_LOGIC)"
  using verdict_single_nonzero_u64 [where stack = "[Uint64 5]" and len = 3 and v = "Uint64 7"
      and st = "[Bytes [], Uint64 0]" and k = "- 1" and b = "[1]"]
    verdict_single_nonzero_u64 [where stack = "[Uint64 (2 ^ 64 - 1)]" and len = 3
      and v = "Uint64 (- 1)" and st = "[Uint64 1]" and k = "2 ^ 64"]
    verdict_single_nonzero_u64 [where stack = "[Uint64 1, Uint64 1]"]
    verdict_single_nonzero_u64 [where stack = "[]"]
  by (simp add: MAX_UINT64_def)

subsection \<open>Sequencing\<close>

lemma ebind_const_Inr: "ebind m (\<lambda>_. k) = Inr y \<Longrightarrow> k = Inr y"
  by (cases m) simp_all

lemma ebind_assoc: "ebind (ebind m f) g = ebind m (\<lambda>x. ebind (f x) g)"
  by (cases m) simp_all

lemma ebind_Inr_iff: "ebind m f = Inr y \<longleftrightarrow> (\<exists>x. m = Inr x \<and> f x = Inr y)"
  by (cases m) simp_all

lemma processFrom_append:
  "processFrom ext idx cb (pre @ post) =
     ebind (processFrom ext idx cb pre) (\<lambda>cb'. processFrom ext (idx + length pre) cb' post)"
proof (induction pre arbitrary: idx cb)
  case Nil
  then show ?case by simp
next
  case (Cons p pre)
  show ?case
    by (simp add: Cons.IH ebind_assoc)
qed

subsection \<open>Balances under \<open>Ctx.transferAlgo\<close>\<close>

lemma dom_updAccount [simp]:
  "dom (accounts (state (updAccount k f c))) = dom (accounts (state c))"
  by (auto simp add: updAccount_def split: option.splits)

lemma amountOf_updAccount_same:
  "accounts (state c) k = Some a \<Longrightarrow> amountOf k (updAccount k f c) = amount (f a)"
  by (simp add: updAccount_def amountOf_def)

lemma amountOf_updAccount_other:
  "k' \<noteq> k \<Longrightarrow> amountOf k' (updAccount k f c) = amountOf k' c"
  by (simp add: updAccount_def amountOf_def split: option.splits)

lemma accounts_updAccount_other:
  "k' \<noteq> k \<Longrightarrow> accounts (state (updAccount k f c)) k' = accounts (state c) k'"
  by (simp add: updAccount_def split: option.splits)

lemma accounts_updAccount_same:
  "accounts (state c) k = Some a \<Longrightarrow> accounts (state (updAccount k f c)) k = Some (f a)"
  by (simp add: updAccount_def)

lemma totalAlgo_updAccount:
  assumes fin: "finite (dom (accounts (state c)))"
    and k: "accounts (state c) k = Some a"
  shows "totalAlgo (updAccount k f c) = totalAlgo c - amount a + amount (f a)"
proof -
  let ?D = "dom (accounts (state c))"
  from k have kD: "k \<in> ?D" by auto
  have rest: "(\<Sum>j \<in> ?D - {k}. amountOf j (updAccount k f c)) = (\<Sum>j \<in> ?D - {k}. amountOf j c)"
    by (rule sum.cong) (simp_all add: amountOf_updAccount_other)
  have "totalAlgo (updAccount k f c) =
          amountOf k (updAccount k f c) + (\<Sum>j \<in> ?D - {k}. amountOf j (updAccount k f c))"
    unfolding totalAlgo_def dom_updAccount using fin kD by (rule sum.remove)
  also have "\<dots> = amount (f a) + (\<Sum>j \<in> ?D - {k}. amountOf j c)"
    by (simp only: rest amountOf_updAccount_same [OF k])
  finally have lhs: "totalAlgo (updAccount k f c) = amount (f a) + (\<Sum>j \<in> ?D - {k}. amountOf j c)" .
  have "totalAlgo c = amountOf k c + (\<Sum>j \<in> ?D - {k}. amountOf j c)"
    unfolding totalAlgo_def using fin kD by (rule sum.remove)
  then have "totalAlgo c = amount a + (\<Sum>j \<in> ?D - {k}. amountOf j c)"
    using k by (simp add: amountOf_def)
  with lhs show ?thesis by simp
qed

lemma getAccount_Some: "getAccount k c = Inr a \<longleftrightarrow> accounts (state c) k = Some a"
  by (simp add: getAccount_def assertAccountDefined_def split: option.splits)

lemma amountOf_Some: "accounts (state c) k = Some a \<Longrightarrow> amountOf k c = amount a"
  by (simp add: amountOf_def)

lemma updAccount_present:
  "accounts (state c) k' = Some b \<Longrightarrow> \<exists>b'. accounts (state (updAccount k f c)) k' = Some b'"
  by (cases "k' = k") (simp_all add: accounts_updAccount_other accounts_updAccount_same)

lemma totalAlgo_debit_credit:
  assumes fin: "finite (dom (accounts (state c)))"
    and f: "accounts (state c) from = Some fa"
    and t: "accounts (state c) to = Some ta"
  shows "totalAlgo (updAccount to (\<lambda>a. a\<lparr>amount := amount a + x\<rparr>)
           (updAccount from (\<lambda>a. a\<lparr>amount := amount a - x\<rparr>) c)) = totalAlgo c"
proof -
  let ?c1 = "updAccount from (\<lambda>a. a\<lparr>amount := amount a - x\<rparr>) c"
  have fin1: "finite (dom (accounts (state ?c1)))" using fin by simp
  have t1: "totalAlgo ?c1 = totalAlgo c - x"
    using totalAlgo_updAccount [OF fin f, of "\<lambda>a. a\<lparr>amount := amount a - x\<rparr>"] by simp
  from updAccount_present [OF t] obtain ta1 where ta1: "accounts (state ?c1) to = Some ta1"
    by blast
  have "totalAlgo (updAccount to (\<lambda>a. a\<lparr>amount := amount a + x\<rparr>) ?c1) = totalAlgo ?c1 + x"
    using totalAlgo_updAccount [OF fin1 ta1, of "\<lambda>a. a\<lparr>amount := amount a + x\<rparr>"] by simp
  with t1 show ?thesis by simp
qed

lemma totalAlgo_close:
  assumes fin: "finite (dom (accounts (state c)))"
    and f: "accounts (state c) from = Some fa"
    and cl: "accounts (state c) closeTo = Some ca"
    and ne: "closeTo \<noteq> from"
  shows "totalAlgo (updAccount from (\<lambda>a. a\<lparr>amount := 0\<rparr>)
           (updAccount closeTo (\<lambda>a. a\<lparr>amount := amount a + amountOf from c\<rparr>) c)) = totalAlgo c"
proof -
  let ?c3 = "updAccount closeTo (\<lambda>a. a\<lparr>amount := amount a + amountOf from c\<rparr>) c"
  have fin3: "finite (dom (accounts (state ?c3)))" using fin by simp
  have t3: "totalAlgo ?c3 = totalAlgo c + amountOf from c"
    using totalAlgo_updAccount [OF fin cl, of "\<lambda>a. a\<lparr>amount := amount a + amountOf from c\<rparr>"]
    by simp
  have f3: "accounts (state ?c3) from = Some fa"
    using ne f by (simp add: accounts_updAccount_other)
  have "totalAlgo (updAccount from (\<lambda>a. a\<lparr>amount := 0\<rparr>) ?c3) = totalAlgo ?c3 - amount fa"
    using totalAlgo_updAccount [OF fin3 f3, of "\<lambda>a. a\<lparr>amount := 0\<rparr>"] by simp
  with t3 f show ?thesis by (simp add: amountOf_Some)
qed

lemma updAccount_cong:
  "accounts (state c) k = Some a \<Longrightarrow> f a = g a \<Longrightarrow> updAccount k f c = updAccount k g c"
  by (simp add: updAccount_def)

lemma safeWithAmountD:
  "safeWithAmount amt c \<Longrightarrow> accounts (state c) k = Some a \<Longrightarrow>
     safeInteger (amount a - amt) \<and> safeInteger (amount a + amt)"
  by (auto simp add: safeWithAmount_def amountOf_def dest!: bspec [where x = k])

lemma safeBalancesD:
  "safeBalances c \<Longrightarrow> accounts (state c) k = Some a \<Longrightarrow> safeInteger (amount a)"
  by (auto simp add: safeBalances_def amountOf_def dest!: bspec [where x = k])

text \<open>
  C10 (as amended). For every \<open>transferAlgo\<close> performed on the context in which the
  \<open>closeRemainderTo\<close> address, when set, is distinct from the sender's address, and in
  which the amount, every balance of the context before and after the transfer, and every
  balance before the transfer decreased or increased by the amount are safe integers,
  the sum of the micro-algo balances over all accounts of the context state is unchanged
  by the transfer.
\<close>

theorem transferAlgo_preserves_total:
  assumes fin: "finite (dom (accounts (state c)))"
    and ok: "transferAlgo from to amt flags c = Inr c'"
    and ne: "closeRemainderTo flags \<noteq> Some from"
    and safe_amt: "safeInteger amt"
    and safe_before: "safeBalances c"
    and safe_steps: "safeWithAmount amt c"
    and safe_after: "safeBalances c'"
  shows "totalAlgo c' = totalAlgo c"
proof -
  let ?c1 = "updAccount from (\<lambda>a. a\<lparr>amount := amount a - amt\<rparr>) c"
  let ?c2 = "updAccount to (\<lambda>a. a\<lparr>amount := amount a + amt\<rparr>) ?c1"
  from ok obtain fa where f: "accounts (state c) from = Some fa"
    by (cases "accounts (state c) from")
      (simp_all add: transferAlgo_def getAccount_def assertAccountDefined_def)
  from ok f obtain ta where t: "accounts (state c) to = Some ta"
    by (cases "accounts (state c) to")
      (simp_all add: transferAlgo_def getAccount_def assertAccountDefined_def)
  have "jsNumber (amount fa - amt) = amount fa - amt"
    using safeWithAmountD [OF safe_steps f] by (simp add: jsNumber_exact)
  then have E1: "updAccount from (\<lambda>a. a\<lparr>amount := jsNumber (amount a - amt)\<rparr>) c = ?c1"
    by (intro updAccount_cong [OF f]) simp
  obtain ta1 where t1: "accounts (state ?c1) to = Some ta1"
    and a1: "amount ta1 + amt = amount fa \<or> amount ta1 + amt = amount ta + amt"
  proof (cases "to = from")
    case True
    with f have "accounts (state ?c1) to = Some (fa\<lparr>amount := amount fa - amt\<rparr>)"
      by (simp add: accounts_updAccount_same)
    then show ?thesis by (rule that) simp
  next
    case False
    with t have "accounts (state ?c1) to = Some ta"
      by (simp add: accounts_updAccount_other)
    then show ?thesis by (rule that) simp
  qed
  have "safeInteger (amount ta1 + amt)"
    using a1 safeBalancesD [OF safe_before f] safeWithAmountD [OF safe_steps t] by auto
  then have "jsNumber (amount ta1 + amt) = amount ta1 + amt" by (rule jsNumber_exact)
  then have E2: "updAccount to (\<lambda>a. a\<lparr>amount := jsNumber (amount a + amt)\<rparr>) ?c1 = ?c2"
    by (intro updAccount_cong [OF t1]) simp
  have T2: "totalAlgo ?c2 = totalAlgo c"
    using fin f t by (rule totalAlgo_debit_credit)
  have fin2: "finite (dom (accounts (state ?c2)))" using fin by simp
  from f obtain fa2 where f2: "accounts (state ?c2) from = Some fa2"
    using updAccount_present by meson
  let ?K = "(case closeRemainderTo flags of
        None \<Rightarrow> Inr ?c2
      | Some closeTo \<Rightarrow>
          if closeTo = [] then Inr ?c2
          else ebind (getAccount closeTo ?c2) (\<lambda>closeRemToAcc.
                 Inr (updAccount from (\<lambda>a. a\<lparr>amount := 0\<rparr>)
                   (updAccount closeTo
                      (\<lambda>a. a\<lparr>amount := jsNumber (amount a + amountOf from ?c2)\<rparr>) ?c2))))"
  have "transferAlgo from to amt flags c =
          ebind (assertMinBalance amt (address fa) c) (\<lambda>_. ?K)"
    by (simp add: transferAlgo_def getAccount_def assertAccountDefined_def f t Let_def E1 E2
        cong: option.case_cong if_cong)
  with ok have step: "?K = Inr c'"
    by (auto dest: ebind_const_Inr)
  show ?thesis
  proof (cases "closeRemainderTo flags")
    case None
    with step T2 show ?thesis by simp
  next
    case (Some closeTo)
    show ?thesis
    proof (cases "closeTo = []")
      case True
      with Some step T2 show ?thesis by simp
    next
      case False
      with Some step obtain ca where cl: "accounts (state ?c2) closeTo = Some ca"
        by (cases "accounts (state ?c2) closeTo")
          (simp_all add: getAccount_def assertAccountDefined_def)
      from Some ne have neq: "closeTo \<noteq> from" by simp
      let ?s = "amount ca + amountOf from ?c2"
      let ?c3j = "updAccount closeTo (\<lambda>a. a\<lparr>amount := jsNumber (amount a + amountOf from ?c2)\<rparr>) ?c2"
      from Some False step cl have c': "c' = updAccount from (\<lambda>a. a\<lparr>amount := 0\<rparr>) ?c3j"
        by (simp add: getAccount_def assertAccountDefined_def)
      have "accounts (state c') closeTo = Some (ca\<lparr>amount := jsNumber ?s\<rparr>)"
        unfolding c' using neq cl
        by (simp add: accounts_updAccount_other accounts_updAccount_same)
      from safeBalancesD [OF safe_after this] have "safeInteger (jsNumber ?s)" by simp
      then have "jsNumber ?s = ?s" by (rule jsNumber_safe_exact)
      then have E3: "?c3j = updAccount closeTo (\<lambda>a. a\<lparr>amount := amount a + amountOf from ?c2\<rparr>) ?c2"
        by (intro updAccount_cong [OF cl]) simp
      from fin2 f2 cl neq have
        "totalAlgo (updAccount from (\<lambda>a. a\<lparr>amount := 0\<rparr>)
           (updAccount closeTo (\<lambda>a. a\<lparr>amount := amount a + amountOf from ?c2\<rparr>) ?c2))
         = totalAlgo ?c2"
        by (rule totalAlgo_close)
      with c' E3 T2 show ?thesis by simp
    qed
  qed
qed

theorem transferAlgo_preserves_total_witness:
  "(case transferAlgo ''alice'' ''bob'' 100 \<lparr>totalFee = None, closeRemainderTo = Some ''carol''\<rparr>
           sampleCtx of
      Inl e \<Rightarrow> False
    | Inr c' \<Rightarrow> totalAlgo c' = totalAlgo sampleCtx \<and> amountOf ''alice'' c' = 0
        \<and> amountOf ''bob'' c' = 1100 \<and> amountOf ''carol'' c' = 16900)"
proof -
  have fin: "finite (dom (accounts (state sampleCtx)))"
    by (simp add: sample_defs)
  have ne: "closeRemainderTo \<lparr>totalFee = None, closeRemainderTo = Some ''carol''\<rparr> \<noteq> Some ''alice''"
    by simp
  have sa: "safeInteger 100" by (simp add: safeInteger_def)
  have sb: "safeBalances sampleCtx"
    by (simp add: safeBalances_def safeInteger_def amountOf_def sample_defs)
  have ss: "safeWithAmount 100 sampleCtx"
    by (simp add: safeWithAmount_def safeInteger_def amountOf_def sample_defs)
  obtain c' where ok: "transferAlgo ''alice'' ''bob'' 100
      \<lparr>totalFee = None, closeRemainderTo = Some ''carol''\<rparr> sampleCtx = Inr c'"
    by (simp add: engine_defs sample_defs Let_def)
  have am: "amountOf ''alice'' c' = 0 \<and> amountOf ''bob'' c' = 1100 \<and> amountOf ''carol'' c' = 16900"
    using ok by (auto simp add: engine_defs sample_defs Let_def)
  have d: "dom (accounts (state c')) = {''alice'', ''bob'', ''carol''}"
    using ok by (auto simp add: engine_defs sample_defs Let_def split: if_splits)
  have sc: "safeBalances c'"
    using am by (simp add: safeBalances_def d safeInteger_def)
  from transferAlgo_preserves_total [OF fin ok ne sa sb ss sc] ok am show ?thesis by simp
qed

text \<open>
  C10 (as stated) fails: the balances are JavaScript numbers. Alice pays 2 micro-algos to
  bob, who holds \<open>2^53 - 1\<close>; alice's balance goes down by 2, but \<open>2^53 + 1\<close> is no
  double and bob's balance becomes \<open>2^53\<close>, so the sum of the balances goes down by 1.
\<close>

theorem transferAlgo_rounding_counterexample:
  "(case transferAlgo ''alice'' ''bob'' 2 \<lparr>totalFee = None, closeRemainderTo = None\<rparr> richCtx of
      Inl e \<Rightarrow> False
    | Inr c' \<Rightarrow> amountOf ''alice'' c' = 9998 \<and> amountOf ''bob'' c' = 2 ^ 53
        \<and> totalAlgo c' = totalAlgo richCtx - 1)
   \<and> amountOf ''alice'' richCtx = 10000 \<and> amountOf ''bob'' richCtx = 2 ^ 53 - 1"
  by (simp add: totalAlgo_def transferAlgo_def getAccount_def assertAccountDefined_def
      assertMinBalance_def updAccount_def amountOf_def jsNumber_def roundMagnitude_def
      doubleUlp_small doubleUlp_step Let_def sample_defs)

subsection \<open>Fees in \<open>Ctx.processTransactions\<close>\<close>

lemma processTransactions_alt:
  "processTransactions ext txnParams c = processFrom ext 0 (c, False) txnParams"
proof -
  have "(\<lambda>(c', clearErrorBool). if clearErrorBool then Inr (c', True) else Inr (c', False))
        = (Inr :: Ctx \<times> bool \<Rightarrow> error + (Ctx \<times> bool))"
    by (rule ext) auto
  then show ?thesis
    by (cases "processFrom ext 0 (c, False) txnParams") (simp_all add: processTransactions_def)
qed

lemma processTransactions_split:
  assumes "processFrom ext 0 (c, False) pre = Inr cb"
  shows "processTransactions ext (pre @ p # post) c =
           ebind (processTxn ext cb p (length pre)) (\<lambda>cb'. processFrom ext (Suc (length pre)) cb' post)"
  using assms by (simp add: processTransactions_alt processFrom_append)






subsection \<open>\<open>ClearSSC\<close>\<close>

lemma closeApp_result:
  assumes "accounts (state c) sender = Some a" "getApp (Some appId) c = Inr app"
  shows "closeApp sender appId c = Inr (updAccount sender (acc_closeApp appId) c)"
  using assms by (simp add: closeApp_def getAccount_def assertAccountDefined_def assertAppDefined_def)

text \<open>
  C2. For a \<open>ClearSSC\<close> transaction whose clear program ends with the logic rejection
  (\<open>REJECTED_BY_LOGIC\<close>, error number 1007), the local state of the caller for the
  application is removed all the same and the transaction is accepted (with the sender
  and the application still present in the context the program leaves); when the clear
  program fails with any other fatal error, the group is rejected with that error.
\<close>

theorem clearSSC_rejected_by_logic:
  assumes prefix: "processFrom ext 0 (c0, False) pre = Inr (c1, flag)"
    and fee: "deductFee (fromAccount_addr txnParam) (length pre) c1 = Inr c2"
    and amb: "assertAmbiguousTxnParams txnParam = Inr ()"
    and ls: "runLsig ext txnParam (length pre) c2 = Inr c"
    and b: "body txnParam = ClearSSC appId"
    and app: "getApp (Some appId) c = Inr app"
    and run: "ext_run ext (clear_state_program app) STATEFUL c = (Some err, c')"
  shows "(err = RuntimeError REJECTED_BY_LOGIC
            \<and> accounts (state c') (fromAccount_addr txnParam) = Some a
            \<and> getApp (Some appId) c' = Inr app' \<longrightarrow>
          processTxn ext (c1, flag) txnParam (length pre) =
            Inr (updAccount (fromAccount_addr txnParam) (acc_closeApp appId) c', True)
          \<and> accounts (state (updAccount (fromAccount_addr txnParam) (acc_closeApp appId) c'))
              (fromAccount_addr txnParam) = Some (acc_closeApp appId a)
          \<and> appsLocalState (acc_closeApp appId a) appId = None)
       \<and> (err \<noteq> RuntimeError REJECTED_BY_LOGIC \<longrightarrow>
          processTransactions ext (pre @ txnParam # post) c0 = Inl err)"
proof (intro conjI impI)
  assume h: "err = RuntimeError REJECTED_BY_LOGIC
            \<and> accounts (state c') (fromAccount_addr txnParam) = Some a
            \<and> getApp (Some appId) c' = Inr app'"
  then have cl: "closeApp (fromAccount_addr txnParam) appId c' =
      Inr (updAccount (fromAccount_addr txnParam) (acc_closeApp appId) c')"
    by (intro closeApp_result) simp_all
  from h have "runPayload ext txnParam c =
      Inr (updAccount (fromAccount_addr txnParam) (acc_closeApp appId) c', True)"
    by (simp add: runPayload_def b app run assertAppDefined_def cl)
  then show "processTxn ext (c1, flag) txnParam (length pre) =
            Inr (updAccount (fromAccount_addr txnParam) (acc_closeApp appId) c', True)"
    by (simp add: processTxn_def fee amb ls)
  from h show "accounts (state (updAccount (fromAccount_addr txnParam) (acc_closeApp appId) c'))
              (fromAccount_addr txnParam) = Some (acc_closeApp appId a)"
    by (simp add: accounts_updAccount_same)
  show "appsLocalState (acc_closeApp appId a) appId = None"
    by (simp add: acc_closeApp_def)
next
  assume ne: "err \<noteq> RuntimeError REJECTED_BY_LOGIC"
  then have "runPayload ext txnParam c = Inl err"
    by (simp add: runPayload_def b app run assertAppDefined_def)
  then have "processTxn ext (c1, flag) txnParam (length pre) = Inl err"
    by (simp add: processTxn_def fee amb ls)
  then show "processTransactions ext (pre @ txnParam # post) c0 = Inl err"
    by (simp add: processTransactions_split [OF prefix])
qed

theorem clearSSC_rejected_by_logic_witness:
  "(case processTransactions sampleExt [clearCall ''bob'' 7] appCtx of
      Inl e \<Rightarrow> False
    | Inr (c, b) \<Rightarrow> b \<and> map_option (\<lambda>a. appsLocalState a 7) (accounts (state c) ''bob'') = Some None)
   \<and> map_option (\<lambda>a. acc_getLocalState 7 [1] a) (accounts (state appCtx) ''bob'')
       = Some (Some (Bytes [2]))
   \<and> processTransactions sampleExt [clearCall ''bob'' 8] appCtx
       = Inl (RuntimeError TEAL_ENCOUNTERED_ERR)"
proof -
  let ?c2 = "updAccount ''bob'' (\<lambda>a. a\<lparr>amount := amount a - 1000\<rparr>) appCtx"
  have prefix: "processFrom sampleExt 0 (appCtx, False) [] = Inr (appCtx, False)" by simp
  have fee7: "deductFee (fromAccount_addr (clearCall ''bob'' 7)) (length ([] :: ExecParams list))
      appCtx = Inr ?c2"
    by (simp add: engine_defs sample_defs Let_def)
  have fee8: "deductFee (fromAccount_addr (clearCall ''bob'' 8)) (length ([] :: ExecParams list))
      appCtx = Inr ?c2"
    by (simp add: engine_defs sample_defs Let_def)
  have amb7: "assertAmbiguousTxnParams (clearCall ''bob'' 7) = Inr ()"
    and amb8: "assertAmbiguousTxnParams (clearCall ''bob'' 8) = Inr ()"
    by (simp_all add: assertAmbiguousTxnParams_def clearCall_def)
  have ls7: "runLsig sampleExt (clearCall ''bob'' 7) (length ([] :: ExecParams list)) ?c2 = Inr ?c2"
    and ls8: "runLsig sampleExt (clearCall ''bob'' 8) (length ([] :: ExecParams list)) ?c2 = Inr ?c2"
    by (simp_all add: runLsig_def clearCall_def)
  have b7: "body (clearCall ''bob'' 7) = ClearSSC 7" and b8: "body (clearCall ''bob'' 8) = ClearSSC 8"
    by (simp_all add: clearCall_def)
  have app7: "getApp (Some 7) ?c2 = Inr (appAttrs ''int 0'')"
    and app8: "getApp (Some 8) ?c2 = Inr (appAttrs ''err'')"
    by (simp_all add: engine_defs sample_defs)
  have run7: "ext_run sampleExt (clear_state_program (appAttrs ''int 0'')) STATEFUL ?c2
      = (Some (RuntimeError REJECTED_BY_LOGIC), ?c2)"
    and run8: "ext_run sampleExt (clear_state_program (appAttrs ''err'')) STATEFUL ?c2
      = (Some (RuntimeError TEAL_ENCOUNTERED_ERR), ?c2)"
    by (simp_all add: sampleExt_def appAttrs_def)
  obtain bobAcc where bob: "accounts (state ?c2) (fromAccount_addr (clearCall ''bob'' 7)) = Some bobAcc"
    by (simp add: engine_defs sample_defs)
  note w7 = clearSSC_rejected_by_logic [OF prefix fee7 amb7 ls7 b7 app7 run7,
      where a = bobAcc and app' = "appAttrs ''int 0''" and post = "[]"]
  note w8 = clearSSC_rejected_by_logic [OF prefix fee8 amb8 ls8 b8 app8 run8,
      where post = "[]"]
  from w7 bob app7 have acc7: "processTxn sampleExt (appCtx, False) (clearCall ''bob'' 7) 0 =
      Inr (updAccount ''bob'' (acc_closeApp 7) ?c2, True)
    \<and> accounts (state (updAccount ''bob'' (acc_closeApp 7) ?c2)) ''bob''
        = Some (acc_closeApp 7 bobAcc)
    \<and> appsLocalState (acc_closeApp 7 bobAcc) 7 = None"
    by (simp add: clearCall_def)
  from w8 have rej8: "processTransactions sampleExt [clearCall ''bob'' 8] appCtx
       = Inl (RuntimeError TEAL_ENCOUNTERED_ERR)"
    by simp
  from acc7 have "processTransactions sampleExt [clearCall ''bob'' 7] appCtx
      = Inr (updAccount ''bob'' (acc_closeApp 7) ?c2, True)"
    by (simp add: processTransactions_def)
  with acc7 rej8 show ?thesis
    by (simp add: acc_getLocalState_def sample_defs)
qed

subsection \<open>\<open>app_local_get_ex\<close> and \<open>app_global_get_ex\<close>\<close>

lemma pushValueAndFlag_valueThenFlag:
  assumes "length st + 2 \<le> MAX_STACK_DEPTH"
  shows "valueThenFlag val st (pushValueAndFlag val st)"
proof (cases val)
  case None
  with assms show ?thesis by (simp add: pushValueAndFlag_def push_def)
next
  case (Some x)
  with assms show ?thesis
    by (cases x) (simp_all add: pushValueAndFlag_def push_def)
qed

lemma AppLocalGetEx_execute_eq:
  assumes "interp_getAccount c idx = Inr account"
  shows "AppLocalGetEx_execute c (Bytes key # Uint64 appID # Uint64 idx # st) =
           pushValueAndFlag (acc_getLocalState appID key account) st"
  using assms by (simp add: AppLocalGetEx_execute_def assertMinStackLen_def)

lemma AppGlobalGetEx_execute_current:
  assumes "tx c = Some t" "interp_getGlobalState c (apid t) key = Inr val"
  shows "AppGlobalGetEx_execute c (Bytes key # Uint64 0 # st) = pushValueAndFlag val st"
  using assms by (simp add: AppGlobalGetEx_execute_def assertMinStackLen_def)

lemma AppGlobalGetEx_execute_foreign:
  assumes "tx c = Some t" "apfa t = Some fa" "0 < i" "i \<le> int (length fa)"
    and "interp_getGlobalState c (Some (fa ! nat (i - 1))) key = Inr val"
  shows "AppGlobalGetEx_execute c (Bytes key # Uint64 i # st) = pushValueAndFlag val st"
  using assms
  by (simp add: AppGlobalGetEx_execute_def assertMinStackLen_def checkIndexBound_def)

text \<open>
  C6 (as amended). For every execution of \<open>app_local_get_ex\<close> and \<open>app_global_get_ex\<close>
  that finds its account or application, the value is pushed first and a \<open>did_exist\<close>
  flag of 0 or 1 on top of it; the flag is 0 when the queried key does not exist, the
  flag is 1 and the value is the stored one when the key exists with a value other than
  \<open>Uint64 0\<close>, and when the flag is 0 the accompanying value is \<open>Uint64 0\<close>.
\<close>

theorem get_ex_value_then_flag:
  assumes depth: "length st + 3 \<le> MAX_STACK_DEPTH"
  shows "(interp_getAccount c idx = Inr account \<longrightarrow>
            valueThenFlag (acc_getLocalState appID key account) st
              (AppLocalGetEx_execute c (Bytes key # Uint64 appID # Uint64 idx # st)))
       \<and> (tx c = Some t \<and> interp_getGlobalState c (apid t) key = Inr val \<longrightarrow>
            valueThenFlag val st (AppGlobalGetEx_execute c (Bytes key # Uint64 0 # st)))
       \<and> (tx c = Some t \<and> apfa t = Some fa \<and> 0 < i \<and> i \<le> int (length fa)
            \<and> interp_getGlobalState c (Some (fa ! nat (i - 1))) key = Inr val \<longrightarrow>
            valueThenFlag val st (AppGlobalGetEx_execute c (Bytes key # Uint64 i # st)))"
proof -
  from depth have d: "length st + 2 \<le> MAX_STACK_DEPTH" by simp
  show ?thesis
    by (auto simp add: AppLocalGetEx_execute_eq AppGlobalGetEx_execute_current
        AppGlobalGetEx_execute_foreign pushValueAndFlag_valueThenFlag [OF d])
qed

theorem get_ex_value_then_flag_witness:
  "valueThenFlag (Some (Bytes [2])) [] (AppLocalGetEx_execute appCtx [Bytes [1], Uint64 7, Uint64 0])
   \<and> valueThenFlag (Some (Bytes [5])) [] (AppGlobalGetEx_execute appCtx [Bytes [4], Uint64 0])
   \<and> valueThenFlag None [] (AppGlobalGetEx_execute appCtx [Bytes [9], Uint64 1])"
  using get_ex_value_then_flag [where st = "[]" and c = appCtx and idx = 0
      and account = "the (accounts appState ''bob'')" and appID = 7 and key = "[1]"]
    get_ex_value_then_flag [where st = "[]" and c = appCtx and t = appTxn and key = "[4]"
      and val = "Some (Bytes [5])"]
    get_ex_value_then_flag [where st = "[]" and c = appCtx and t = appTxn and key = "[9]"
      and val = None and fa = "[8]" and i = 1]
  by (simp add: opcode_defs engine_defs sample_defs)

text \<open>
  C6 (as stated) fails: for a key that exists with a byte-string value the flag 1 is on
  top of the stack and the value below it, not the flag below the value.
\<close>

theorem get_ex_flag_below_value_counterexample:
  "AppLocalGetEx_execute appCtx [Bytes [1], Uint64 7, Uint64 0] = Inr [Uint64 1, Bytes [2]]
   \<and> acc_getLocalState 7 [1] (the (accounts appState ''bob'')) = Some (Bytes [2])
   \<and> \<not> flagBelowValue (Some (Bytes [2])) []
         (AppLocalGetEx_execute appCtx [Bytes [1], Uint64 7, Uint64 0])"
  by (simp add: opcode_defs engine_defs sample_defs)

text \<open>
  A key that exists with the value \<open>Uint64 0\<close> is reported with the flag 0: the
  \<open>if (val)\<close> of the opcode takes the stored zero for a missing value.
\<close>

lemma get_ex_stored_zero:
  "global_state (appAttrs ''int 0'') [3] = Some (Uint64 0)
   \<and> AppGlobalGetEx_execute appCtx [Bytes [3], Uint64 0] = Inr [Uint64 0, Uint64 0]"
  by (simp add: opcode_defs engine_defs sample_defs)

subsection \<open>\<open>Runtime.executeTx\<close>\<close>

text \<open>
  While the programs of the group run, only the context changes: a group rejected in
  that phase leaves the store as it was.
\<close>

lemma rt_run_store: "rt_run ext p m rt = (e, rt') \<Longrightarrow> store rt' = store rt"
  by (auto simp add: rt_run_def split: prod.splits)

lemma rt_validateLsigAndRun_store:
  "rt_validateLsigAndRun ext p rt = (e, rt') \<Longrightarrow> store rt' = store rt"
  by (auto simp add: rt_validateLsigAndRun_def split: prod.splits)

lemma rt_runStored_store: "rt_runStored ext cl appId rt = (e, rt') \<Longrightarrow> store rt' = store rt"
  by (auto simp add: rt_runStored_def split: sum.splits prod.splits dest: rt_run_store)

lemma runProgramOf_store:
  assumes "runProgramOf ext p rt = (e, rt')"
  shows "store rt' = store rt"
proof (cases "assertAmbiguousTxnParams p")
  case (Inl err)
  with assms show ?thesis by (simp add: runProgramOf_def)
next
  case (Inr u)
  obtain e1 rt1 where l:
    "(if sign p = LogicSignature then rt_validateLsigAndRun ext p rt else (None, rt)) = (e1, rt1)"
    by fastforce
  then have s1: "store rt1 = store rt"
    by (auto split: if_splits dest: rt_validateLsigAndRun_store)
  show ?thesis
  proof (cases e1)
    case (Some err)
    with assms Inr l have "rt' = rt1" by (simp add: runProgramOf_def)
    with s1 show ?thesis by simp
  next
    case None
    with assms Inr l have
      "(case body p of
          CallNoOpSSC appId \<Rightarrow> rt_runStored ext False appId rt1
        | CloseSSC appId \<Rightarrow> rt_runStored ext False appId rt1
        | DeleteSSC appId \<Rightarrow> rt_runStored ext False appId rt1
        | ClearSSC appId \<Rightarrow> rt_runStored ext True appId rt1
        | _ \<Rightarrow> (None, rt1)) = (e, rt')"
      by (simp add: runProgramOf_def)
    then have "store rt' = store rt1"
      by (cases "body p") (auto dest: rt_runStored_store)
    with s1 show ?thesis by simp
  qed
qed

lemma runPrograms_store: "runPrograms ext ps rt = (e, rt') \<Longrightarrow> store rt' = store rt"
proof (induction ps arbitrary: rt)
  case Nil
  then show ?case by simp
next
  case (Cons p ps)
  obtain e1 rt1 where r1: "runProgramOf ext p rt = (e1, rt1)" by (cases "runProgramOf ext p rt")
  then have s1: "store rt1 = store rt" by (rule runProgramOf_store)
  show ?case
  proof (cases e1)
    case None
    with Cons.prems r1 have "runPrograms ext ps rt1 = (e, rt')" by simp
    then have "store rt' = store rt1" by (rule Cons.IH)
    with s1 show ?thesis by simp
  next
    case (Some err)
    with Cons.prems r1 have "rt' = rt1" by simp
    with s1 show ?thesis by simp
  qed
qed

lemma executeTx_rejected_before_commit:
  assumes "createTxnContext ext txnParams = Inr (t, g)"
    and "runPrograms ext (case txnParams of Single p \<Rightarrow> [p] | Group ps \<Rightarrow> ps)
           (rt\<lparr>ctx := \<lparr>state = store rt, tx = t, gtxs = g,
                        args = (case a of None \<Rightarrow> [] | Some x \<Rightarrow> x)\<rparr>\<rparr>) = (Some e, rt2)"
  shows "executeTx ext txnParams a rt = (Some e, rt2) \<and> store rt2 = store rt"
  using assms runPrograms_store [OF assms(2)]
  by (simp add: executeTx_def Let_def)

text \<open>
  C1 fails on \<open>executeTx\<close> with \<open>updateFinalState\<close>. The group below pays 100 from
  alice to bob and then 5 from alice to an address that is no account of the store. No
  program rejects, so \<open>updateFinalState\<close> makes the state of the context the store and
  applies the transfers to it one by one; the second throws \<open>ACCOUNT_DOES_NOT_EXIST\<close>
  after the first has been written. The call fails and the store shows the first
  transfer.
\<close>

theorem executeTx_partial_commit:
  "fst (executeTx sampleExt
      (Group [algoTransfer ''alice'' ''bob'' 100, algoTransfer ''alice'' ''ghost'' 5]) None
      sampleRuntime) = Some (RuntimeError ACCOUNT_DOES_NOT_EXIST)
   \<and> storeBalance sampleRuntime ''alice'' = Some 10000
   \<and> storeBalance sampleRuntime ''bob'' = Some 1000
   \<and> storeBalance (snd (executeTx sampleExt
      (Group [algoTransfer ''alice'' ''bob'' 100, algoTransfer ''alice'' ''ghost'' 5]) None
      sampleRuntime)) ''alice'' = Some 9900
   \<and> storeBalance (snd (executeTx sampleExt
      (Group [algoTransfer ''alice'' ''bob'' 100, algoTransfer ''alice'' ''ghost'' 5]) None
      sampleRuntime)) ''bob'' = Some 1100"
  by (simp add: runtime_defs sample_defs Let_def)

end
